theory Spec2Isabelle
  imports Complex_Main
begin

section \<open>JavaScript values\<close>

text \<open>
  The server reads request bodies and upstream bodies with \<^verbatim>\<open>JSON.parse\<close>, so every value
  the program inspects is a JSON value, or \<^verbatim>\<open>undefined\<close> where a property is missing.
  A number is the rational that its decimal notation denotes. An object is the list of its
  own properties.
\<close>

datatype jsval =
    JUndefined
  | JNull
  | JBool bool
  | JNum rat
  | JStr string
  | JArr "jsval list"
  | JObj "(string \<times> jsval) list"

datatype js_error = TypeError | SyntaxError | FetchError | ReadError

text \<open>Truthiness, as \<^verbatim>\<open>if (v)\<close>, \<^verbatim>\<open>!v\<close>, \<^verbatim>\<open>a || b\<close> and \<^verbatim>\<open>a && b\<close> test it.\<close>

fun truthy :: "jsval \<Rightarrow> bool" where
  "truthy JUndefined = False"
| "truthy JNull = False"
| "truthy (JBool b) = b"
| "truthy (JNum r) = (r \<noteq> 0)"
| "truthy (JStr s) = (s \<noteq> [])"
| "truthy (JArr xs) = True"
| "truthy (JObj kvs) = True"

text \<open>
  Property read \<^verbatim>\<open>v.k\<close>: a TypeError on \<^verbatim>\<open>undefined\<close> and \<^verbatim>\<open>null\<close>, the own property of an
  object, \<^verbatim>\<open>undefined\<close> otherwise. The program reads the properties
  \<^verbatim>\<open>messages, model, temperature, max_tokens, stream, role, content, choices, delta, message,
  error, usage\<close> only, none of which a prototype defines.
\<close>

fun get_prop :: "jsval \<Rightarrow> string \<Rightarrow> js_error + jsval" where
  "get_prop JUndefined k = Inl TypeError"
| "get_prop JNull k = Inl TypeError"
| "get_prop (JObj kvs) k = Inr (case map_of kvs k of None \<Rightarrow> JUndefined | Some v \<Rightarrow> v)"
| "get_prop (JBool b) k = Inr JUndefined"
| "get_prop (JNum r) k = Inr JUndefined"
| "get_prop (JStr s) k = Inr JUndefined"
| "get_prop (JArr xs) k = Inr JUndefined"

text \<open>Optional chaining \<^verbatim>\<open>v?.k\<close>: \<^verbatim>\<open>undefined\<close> on a nullish value, never an error.\<close>

fun opt_chain :: "jsval \<Rightarrow> string \<Rightarrow> jsval" where
  "opt_chain JUndefined k = JUndefined"
| "opt_chain JNull k = JUndefined"
| "opt_chain (JObj kvs) k = (case map_of kvs k of None \<Rightarrow> JUndefined | Some v \<Rightarrow> v)"
| "opt_chain (JBool b) k = JUndefined"
| "opt_chain (JNum r) k = JUndefined"
| "opt_chain (JStr s) k = JUndefined"
| "opt_chain (JArr xs) k = JUndefined"

text \<open>Index read \<^verbatim>\<open>v[0]\<close>.\<close>

fun index0 :: "jsval \<Rightarrow> js_error + jsval" where
  "index0 JUndefined = Inl TypeError"
| "index0 JNull = Inl TypeError"
| "index0 (JArr xs) = Inr (case xs of [] \<Rightarrow> JUndefined | x # _ \<Rightarrow> x)"
| "index0 (JObj kvs) = Inr (case map_of kvs ''0'' of None \<Rightarrow> JUndefined | Some v \<Rightarrow> v)"
| "index0 (JStr s) = Inr (case s of [] \<Rightarrow> JUndefined | c # _ \<Rightarrow> JStr [c])"
| "index0 (JBool b) = Inr JUndefined"
| "index0 (JNum r) = Inr JUndefined"

text \<open>\<^verbatim>\<open>a || b\<close> as a value.\<close>

definition js_or :: "jsval \<Rightarrow> jsval \<Rightarrow> jsval" where
  "js_or a b = (if truthy a then a else b)"

fun isArray :: "jsval \<Rightarrow> bool" where
  "isArray (JArr xs) = True"
| "isArray JUndefined = False"
| "isArray JNull = False"
| "isArray (JBool b) = False"
| "isArray (JNum r) = False"
| "isArray (JStr s) = False"
| "isArray (JObj kvs) = False"

fun elements :: "jsval \<Rightarrow> jsval list" where
  "elements (JArr xs) = xs"
| "elements JUndefined = []"
| "elements JNull = []"
| "elements (JBool b) = []"
| "elements (JNum r) = []"
| "elements (JStr s) = []"
| "elements (JObj kvs) = []"

text \<open>
  A comparison with a number literal converts its left operand to a number first. On
  \<^verbatim>\<open>undefined\<close> (NaN, written \<open>None\<close>), \<^verbatim>\<open>null\<close>, booleans and numbers the conversion is
  written out; on strings, arrays and objects it is the language's string-to-number
  conversion, which the model takes as the parameter \<open>co\<close> (it may raise, and may give NaN).
  A comparison with NaN is false.
\<close>

type_synonym coercion = "jsval \<Rightarrow> js_error + rat option"

fun to_number :: "coercion \<Rightarrow> jsval \<Rightarrow> js_error + rat option" where
  "to_number co JUndefined = Inr None"
| "to_number co JNull = Inr (Some 0)"
| "to_number co (JBool b) = Inr (Some (if b then 1 else 0))"
| "to_number co (JNum r) = Inr (Some r)"
| "to_number co (JStr s) = co (JStr s)"
| "to_number co (JArr xs) = co (JArr xs)"
| "to_number co (JObj kvs) = co (JObj kvs)"

definition js_lt :: "coercion \<Rightarrow> jsval \<Rightarrow> rat \<Rightarrow> js_error + bool" where
  "js_lt co v r =
     (case to_number co v of
        Inl e \<Rightarrow> Inl e
      | Inr None \<Rightarrow> Inr False
      | Inr (Some x) \<Rightarrow> Inr (x < r))"

definition js_gt :: "coercion \<Rightarrow> jsval \<Rightarrow> rat \<Rightarrow> js_error + bool" where
  "js_gt co v r =
     (case to_number co v of
        Inl e \<Rightarrow> Inl e
      | Inr None \<Rightarrow> Inr False
      | Inr (Some x) \<Rightarrow> Inr (x > r))"

section \<open>Configuration\<close>

text \<open>
  \<^verbatim>\<open>CONFIG\<close> of server.js: the credential is the environment variable, a string or absent;
  the URL and the token default are constants.
\<close>

record config =
  GROQ_API_KEY :: "string option"
  NODE_ENV :: string

definition GROQ_API_URL :: string where
  "GROQ_API_URL = ''https://api.groq.com/openai/v1/chat/completions''"

definition MAX_TOKENS :: rat where
  "MAX_TOKENS = 2048"

section \<open>Validators\<close>

text \<open>\<^verbatim>\<open>Validators.validateApiKey\<close>: \<^verbatim>\<open>!CONFIG.GROQ_API_KEY\<close> holds for an absent and for an empty key.\<close>

definition validateApiKey :: "config \<Rightarrow> bool" where
  "validateApiKey cfg = (case GROQ_API_KEY cfg of None \<Rightarrow> False | Some k \<Rightarrow> k \<noteq> [])"

text \<open>The result object \<^verbatim>\<open>{ valid: true }\<close> or \<^verbatim>\<open>{ valid: false, error: msg }\<close>.\<close>

datatype validation = Valid | Invalid string

definition MissingMessages :: string where
  "MissingMessages = ''Messages array is required and cannot be empty''"

definition MalformedMessage :: string where
  "MalformedMessage = ''Each message must have role and content''"

definition TemperatureOutOfRange :: string where
  "TemperatureOutOfRange = ''Temperature must be between 0 and 2''"

definition MaxTokensOutOfRange :: string where
  "MaxTokensOutOfRange = ''Max tokens must be between 1 and 4096''"

text \<open>
  \<^verbatim>\<open>messages.some(msg => !msg.role || !msg.content)\<close>: the elements in order, stopping at the first
  one the predicate accepts; reading \<^verbatim>\<open>role\<close> of a \<^verbatim>\<open>null\<close> element raises.
\<close>

fun some_incomplete :: "jsval list \<Rightarrow> js_error + bool" where
  "some_incomplete [] = Inr False"
| "some_incomplete (msg # rest) =
     (case get_prop msg ''role'' of
        Inl e \<Rightarrow> Inl e
      | Inr role \<Rightarrow>
          if \<not> truthy role then Inr True
          else (case get_prop msg ''content'' of
                  Inl e \<Rightarrow> Inl e
                | Inr content \<Rightarrow>
                    if \<not> truthy content then Inr True else some_incomplete rest))"

text \<open>\<^verbatim>\<open>v && (v < lo || v > hi)\<close> as a condition.\<close>

definition out_of_range :: "coercion \<Rightarrow> jsval \<Rightarrow> rat \<Rightarrow> rat \<Rightarrow> js_error + bool" where
  "out_of_range co v lo hi =
     (if \<not> truthy v then Inr False
      else (case js_lt co v lo of
              Inl e \<Rightarrow> Inl e
            | Inr True \<Rightarrow> Inr True
            | Inr False \<Rightarrow> js_gt co v hi))"

text \<open>\<^verbatim>\<open>Validators.validateChatRequest(body)\<close>; \<open>Inl\<close> is an exception it raises.\<close>

definition validateChatRequest :: "coercion \<Rightarrow> jsval \<Rightarrow> js_error + validation" where
  "validateChatRequest co body =
     (case get_prop body ''messages'' of
        Inl e \<Rightarrow> Inl e
      | Inr msgs \<Rightarrow>
     (case get_prop body ''temperature'' of
        Inl e \<Rightarrow> Inl e
      | Inr temp \<Rightarrow>
     (case get_prop body ''max_tokens'' of
        Inl e \<Rightarrow> Inl e
      | Inr maxtok \<Rightarrow>
          if \<not> truthy msgs \<or> \<not> isArray msgs \<or> length (elements msgs) = 0
          then Inr (Invalid MissingMessages)
          else (case some_incomplete (elements msgs) of
                  Inl e \<Rightarrow> Inl e
                | Inr True \<Rightarrow> Inr (Invalid MalformedMessage)
                | Inr False \<Rightarrow>
                    (case out_of_range co temp 0 2 of
                       Inl e \<Rightarrow> Inl e
                     | Inr True \<Rightarrow> Inr (Invalid TemperatureOutOfRange)
                     | Inr False \<Rightarrow>
                         (case out_of_range co maxtok 1 4096 of
                            Inl e \<Rightarrow> Inl e
                          | Inr True \<Rightarrow> Inr (Invalid MaxTokensOutOfRange)
                          | Inr False \<Rightarrow> Inr Valid))))))"

definition user_msg :: "string \<Rightarrow> jsval" where
  "user_msg s = JObj [(''role'', JStr ''user''), (''content'', JStr s)]"

section \<open>The upstream client\<close>

text \<open>
  \<^verbatim>\<open>COMPANY_CONTEXT\<close>, the text of the system message, and the system message that
  \<^verbatim>\<open>GroqClient.sendRequest\<close> builds from it.
\<close>

definition COMPANY_CONTEXT :: string where
  "COMPANY_CONTEXT =
     ''You are an AI assistant for AI Global Networks, a leading company specializing in AI automation and integration solutions.'' @ [CHR 0x0A] @
     '''' @ [CHR 0x0A] @
     ''ABOUT AI GLOBAL NETWORKS:'' @ [CHR 0x0A] @
     ''- We help businesses automate workflows and integrate AI into their operations'' @ [CHR 0x0A] @
     ''- Founded with a mission to make AI accessible and practical for all industries'' @ [CHR 0x0A] @
     ''- Expert team with years of experience in AI, machine learning, and automation'' @ [CHR 0x0A] @
     '''' @ [CHR 0x0A] @
     ''OUR SERVICES:'' @ [CHR 0x0A] @
     ''1. Smart Automation - Automate repetitive tasks with AI'' @ [CHR 0x0A] @
     ''2. AI Integrations - Connect AI with your existing tools and apps'' @ [CHR 0x0A] @
     ''3. Custom AI Solutions - Personalized AI tools for your business needs'' @ [CHR 0x0A] @
     ''4. 24/7 Support - Round-the-clock assistance from our expert team'' @ [CHR 0x0A] @
     '''' @ [CHR 0x0A] @
     ''INDUSTRIES WE SERVE:'' @ [CHR 0x0A] @
     ''- Customer Support (AI chatbots, ticket automation)'' @ [CHR 0x0A] @
     ''- Healthcare (patient management, diagnosis assistance)'' @ [CHR 0x0A] @
     ''- Marketing (content generation, campaign optimization)'' @ [CHR 0x0A] @
     ''- Education (personalized learning, grading automation)'' @ [CHR 0x0A] @
     ''- Finance (fraud detection, automated reporting)'' @ [CHR 0x0A] @
     '''' @ [CHR 0x0A] @
     ''OUR APPLICATIONS:'' @ [CHR 0x0A] @
     ''- Sensi Sezuire - AI-powered security monitoring'' @ [CHR 0x0A] @
     ''- Block Spy - Blockchain intelligence and analytics'' @ [CHR 0x0A] @
     ''- Ubizo iMarket - Smart marketplace automation'' @ [CHR 0x0A] @
     ''- Woman in AI - Empowering women in technology'' @ [CHR 0x0A] @
     ''- Ethical AI - Responsible AI development tools'' @ [CHR 0x0A] @
     ''- 24/7 Property Hunter - Automated real estate finder'' @ [CHR 0x0A] @
     '''' @ [CHR 0x0A] @
     ''SKILLS DEVELOPMENT PROGRAMS:'' @ [CHR 0x0A] @
     ''- Cybersecurity training'' @ [CHR 0x0A] @
     ''- Data Science bootcamps'' @ [CHR 0x0A] @
     ''- Software Development courses'' @ [CHR 0x0A] @
     ''- Design Thinking workshops'' @ [CHR 0x0A] @
     '''' @ [CHR 0x0A] @
     ''PRICING:'' @ [CHR 0x0A] @
     ''- Free tier available for small businesses'' @ [CHR 0x0A] @
     ''- Professional plans starting at competitive rates'' @ [CHR 0x0A] @
     ''- Enterprise solutions with custom pricing'' @ [CHR 0x0A] @
     ''- No credit card required to get started'' @ [CHR 0x0A] @
     '''' @ [CHR 0x0A] @
     ''When answering questions:'' @ [CHR 0x0A] @
     ''- Be professional, friendly, and helpful'' @ [CHR 0x0A] @
     ''- Reference our specific services when relevant'' @ [CHR 0x0A] @
     ''- Encourage users to explore our solutions'' @ [CHR 0x0A] @
     ''- Provide accurate information about AI automation'' @ [CHR 0x0A] @
     ''- If unsure about specific pricing or technical details, suggest contacting our team'' @ [CHR 0x0A] @
     ''- Always maintain a positive, solution-oriented tone''"

definition systemMessage :: jsval where
  "systemMessage = JObj [(''role'', JStr ''system''), (''content'', JStr COMPANY_CONTEXT)]"

text \<open>A destructuring default \<^verbatim>\<open>{ x = d }\<close> applies to \<^verbatim>\<open>undefined\<close> only.\<close>

definition default_to :: "jsval \<Rightarrow> jsval \<Rightarrow> jsval" where
  "default_to d v = (if v = JUndefined then d else v)"

text \<open>
  The spread \<^verbatim>\<open>...messages\<close> inside an array literal: the elements of an array, the
  characters of a string, a TypeError on a value that is not iterable.
\<close>

fun spread :: "jsval \<Rightarrow> js_error + jsval list" where
  "spread (JArr xs) = Inr xs"
| "spread (JStr s) = Inr (map (\<lambda>c. JStr [c]) s)"
| "spread JUndefined = Inl TypeError"
| "spread JNull = Inl TypeError"
| "spread (JBool b) = Inl TypeError"
| "spread (JNum r) = Inl TypeError"
| "spread (JObj kvs) = Inl TypeError"

text \<open>
  The object \<^verbatim>\<open>requestBody\<close> of \<^verbatim>\<open>sendRequest(messages, options)\<close>, with the defaults of the
  destructured options.
\<close>

definition requestBody :: "jsval list \<Rightarrow> jsval \<Rightarrow> jsval \<Rightarrow> jsval \<Rightarrow> jsval \<Rightarrow> jsval" where
  "requestBody msgs mdl temp maxtok strm =
     JObj [(''model'', default_to (JStr ''llama-3.3-70b-versatile'') mdl),
           (''messages'', JArr (systemMessage # msgs)),
           (''temperature'', default_to (JNum (7 / 10)) temp),
           (''max_tokens'', default_to (JNum MAX_TOKENS) maxtok),
           (''top_p'', JNum 1),
           (''stream'', default_to (JBool False) strm)]"

text \<open>One call of \<^verbatim>\<open>fetch\<close>: the URL and the \<^verbatim>\<open>init\<close> object, its body before serialisation.\<close>

record fetch_call =
  call_url :: string
  call_method :: string
  call_headers :: "(string \<times> string) list"
  call_body :: jsval

text \<open>
  What the upstream answers. A response has a status, a body that \<^verbatim>\<open>response.json()\<close> reads
  (\<open>None\<close> when it is not JSON and the read rejects), and a body stream that
  \<^verbatim>\<open>reader.read()\<close> consumes: the decoded text of each chunk read, in order, up to the read
  that reports \<^verbatim>\<open>done\<close> or the read that rejects because the connection dropped.
\<close>

datatype stream_end = Done | Dropped

record upstream_response =
  up_status :: nat
  up_json :: "jsval option"
  up_chunks :: "string list"
  up_end :: stream_end

datatype fetch_result = FetchFailed | FetchResponse upstream_response

text \<open>\<^verbatim>\<open>response.ok\<close>.\<close>

definition ok :: "upstream_response \<Rightarrow> bool" where
  "ok up = (200 \<le> up_status up \<and> up_status up \<le> 299)"

definition bearer :: "config \<Rightarrow> string" where
  "bearer cfg = ''Bearer '' @ (case GROQ_API_KEY cfg of None \<Rightarrow> ''undefined'' | Some k \<Rightarrow> k)"

text \<open>
  \<^verbatim>\<open>GroqClient.sendRequest\<close>: the calls of \<^verbatim>\<open>fetch\<close> it made, and the response or the
  exception it ends with.
\<close>

definition sendRequest ::
  "config \<Rightarrow> (fetch_call \<Rightarrow> fetch_result) \<Rightarrow> jsval \<Rightarrow> jsval \<Rightarrow> jsval \<Rightarrow> jsval \<Rightarrow> jsval
     \<Rightarrow> fetch_call list \<times> (js_error + upstream_response)" where
  "sendRequest cfg fetch msgs mdl temp maxtok strm =
     (case spread msgs of
        Inl e \<Rightarrow> ([], Inl e)
      | Inr ms \<Rightarrow>
          let call = \<lparr> call_url = GROQ_API_URL,
                        call_method = ''POST'',
                        call_headers = [(''Authorization'', bearer cfg),
                                        (''Content-Type'', ''application/json'')],
                        call_body = requestBody ms mdl temp maxtok strm \<rparr>
          in (case fetch call of
                FetchFailed \<Rightarrow> ([call], Inl FetchError)
              | FetchResponse up \<Rightarrow> ([call], Inr up)))"

section \<open>The HTTP response under construction\<close>

text \<open>
  The Express response object, as far as the handlers use it. \<^verbatim>\<open>res.write\<close> sends the
  headers with the first chunk; \<^verbatim>\<open>res.json\<close> sends a JSON body and ends the response.
  The headers are those the handlers set with \<^verbatim>\<open>res.setHeader\<close>; what Express adds on its
  own is left out, and so are the calls of the logger.
\<close>

record response =
  statusCode :: nat
  headers :: "(string \<times> string) list"
  written :: "string list"
  json_body :: "jsval option"
  headersSent :: bool
  ended :: bool

definition new_response :: response where
  "new_response = \<lparr> statusCode = 200, headers = [], written = [], json_body = None,
                      headersSent = False, ended = False \<rparr>"

definition res_status :: "nat \<Rightarrow> response \<Rightarrow> response" where
  "res_status c r = r\<lparr> statusCode := c \<rparr>"

definition res_setHeader :: "string \<Rightarrow> string \<Rightarrow> response \<Rightarrow> response" where
  "res_setHeader k v r = r\<lparr> headers := (k, v) # filter (\<lambda>p. fst p \<noteq> k) (headers r) \<rparr>"

definition res_json :: "jsval \<Rightarrow> response \<Rightarrow> response" where
  "res_json v r = r\<lparr> json_body := Some v, headersSent := True, ended := True \<rparr>"

definition res_write :: "string \<Rightarrow> response \<Rightarrow> response" where
  "res_write s r = r\<lparr> written := written r @ [s], headersSent := True \<rparr>"

definition res_end :: "response \<Rightarrow> response" where
  "res_end r = r\<lparr> headersSent := True, ended := True \<rparr>"

definition error_body :: "jsval \<Rightarrow> jsval" where
  "error_body v = JObj [(''error'', v)]"

section \<open>Lines and SSE frames\<close>

text \<open>\<^verbatim>\<open>text.split('\n')\<close>: the parts between line feeds, one more than there are line feeds.\<close>

fun split_nl :: "string \<Rightarrow> string list" where
  "split_nl [] = [[]]"
| "split_nl (c # cs) =
     (if c = CHR 0x0A then [] # split_nl cs
      else (case split_nl cs of [] \<Rightarrow> [[c]] | l # ls \<Rightarrow> (c # l) # ls))"

text \<open>\<^verbatim>\<open>line.startsWith('data: ')\<close> and the sentinel frame.\<close>

definition is_data_line :: "string \<Rightarrow> bool" where
  "is_data_line line = (take 6 line = ''data: '')"

definition frame :: "string \<Rightarrow> string" where
  "frame line = line @ [CHR 0x0A, CHR 0x0A]"

definition done_frame :: string where
  "done_frame = frame ''data: [DONE]''"

section \<open>GET /api/health\<close>

text \<open>The handler of \<^verbatim>\<open>/api/health\<close>; \<open>now\<close> is \<^verbatim>\<open>new Date().toISOString()\<close>.\<close>

definition health_handler :: "config \<Rightarrow> string \<Rightarrow> response" where
  "health_handler cfg now =
     (let isHealthy = validateApiKey cfg
      in res_json
           (JObj [(''status'', JStr (if isHealthy then ''ok'' else ''degraded'')),
                  (''timestamp'', JStr now),
                  (''environment'', JStr (NODE_ENV cfg)),
                  (''apiConfigured'', JBool (case GROQ_API_KEY cfg of None \<Rightarrow> False | Some k \<Rightarrow> k \<noteq> []))])
           (res_status (if isHealthy then 200 else 503) new_response))"

section \<open>POST /api/chat\<close>

text \<open>The branch for an upstream response that is not \<^verbatim>\<open>ok\<close>; \<open>Inl\<close> is an exception.\<close>

definition upstream_error_reply :: "upstream_response \<Rightarrow> response \<Rightarrow> js_error + response" where
  "upstream_error_reply up r =
     (case up_json up of
        None \<Rightarrow> Inl SyntaxError
      | Some errorData \<Rightarrow>
          (case get_prop errorData ''error'' of
             Inl e \<Rightarrow> Inl e
           | Inr err \<Rightarrow>
               Inr (res_json
                      (error_body (js_or (opt_chain err ''message'') (JStr ''AI service error'')))
                      (res_status (up_status up) r))))"

text \<open>The inner loop of the relay: the lines of one chunk.\<close>

fun relay_lines :: "string list \<Rightarrow> response \<Rightarrow> response" where
  "relay_lines [] r = r"
| "relay_lines (line # rest) r =
     relay_lines rest (if is_data_line line then res_write (frame line) r else r)"

text \<open>
  The \<^verbatim>\<open>while (true)\<close> loop of the relay over the reads of the upstream body: the response
  it leaves, and the exception of the read that rejected.
\<close>

fun relay_loop :: "string list \<Rightarrow> stream_end \<Rightarrow> response \<Rightarrow> response \<times> js_error option" where
  "relay_loop [] Done r = (res_end (res_write done_frame r), None)"
| "relay_loop [] Dropped r = (r, Some ReadError)"
| "relay_loop (chunk # rest) e r = relay_loop rest e (relay_lines (split_nl chunk) r)"

text \<open>The streaming branch, with its own \<^verbatim>\<open>catch (streamError)\<close>.\<close>

definition stream_reply :: "upstream_response \<Rightarrow> response \<Rightarrow> response" where
  "stream_reply up r =
     (let r1 = res_setHeader ''X-Accel-Buffering'' ''no''
                 (res_setHeader ''Connection'' ''keep-alive''
                   (res_setHeader ''Cache-Control'' ''no-cache''
                     (res_setHeader ''Content-Type'' ''text/event-stream'' r)))
      in (case relay_loop (up_chunks up) (up_end up) r1 of
            (r2, None) \<Rightarrow> r2
          | (r2, Some streamError) \<Rightarrow>
              if \<not> headersSent r2
              then res_json (error_body (JStr ''Streaming failed'')) (res_status 500 r2)
              else r2))"

text \<open>The non-streaming branch; \<open>Inl\<close> is an exception.\<close>

definition json_reply :: "upstream_response \<Rightarrow> response \<Rightarrow> js_error + response" where
  "json_reply up r =
     (case up_json up of
        None \<Rightarrow> Inl SyntaxError
      | Some data \<Rightarrow>
          (case get_prop data ''choices'' of
             Inl e \<Rightarrow> Inl e
           | Inr choices \<Rightarrow>
               (case index0 choices of
                  Inl e \<Rightarrow> Inl e
                | Inr choice \<Rightarrow>
                    Inr (res_json
                           (JObj [(''message'',
                                     js_or (opt_chain (opt_chain choice ''message'') ''content'')
                                           (JStr [])),
                                  (''model'', opt_chain data ''model''),
                                  (''usage'', opt_chain data ''usage'')])
                           r))))"

text \<open>The outer \<^verbatim>\<open>catch (error)\<close> of the handler.\<close>

definition unexpected :: "response \<Rightarrow> response" where
  "unexpected r =
     (if \<not> headersSent r
      then res_json (error_body (JStr ''An unexpected error occurred. Please try again.''))
             (res_status 500 r)
      else r)"

text \<open>
  What one run of a handler leaves: the response, the upstream calls made, and whether the
  handler returned or its promise rejected with an exception nothing caught.
\<close>

datatype outcome = Completed | Rejected js_error

record handled =
  res :: response
  calls :: "fetch_call list"
  outcome :: outcome

text \<open>The \<^verbatim>\<open>try\<close> block of the handler with the outer \<^verbatim>\<open>catch\<close>.\<close>

definition chat_dispatch ::
  "config \<Rightarrow> (fetch_call \<Rightarrow> fetch_result) \<Rightarrow> jsval \<Rightarrow> jsval \<Rightarrow> jsval \<Rightarrow> jsval \<Rightarrow> jsval
     \<Rightarrow> handled" where
  "chat_dispatch cfg fetch msgs mdl temp maxtok strm =
     (case sendRequest cfg fetch msgs mdl temp maxtok strm of
        (cs, Inl e) \<Rightarrow> \<lparr> res = unexpected new_response, calls = cs, outcome = Completed \<rparr>
      | (cs, Inr up) \<Rightarrow>
          if \<not> ok up
          then (case upstream_error_reply up new_response of
                  Inl e \<Rightarrow> \<lparr> res = unexpected new_response, calls = cs, outcome = Completed \<rparr>
                | Inr r \<Rightarrow> \<lparr> res = r, calls = cs, outcome = Completed \<rparr>)
          else if truthy strm
          then \<lparr> res = stream_reply up new_response, calls = cs, outcome = Completed \<rparr>
          else (case json_reply up new_response of
                  Inl e \<Rightarrow> \<lparr> res = unexpected new_response, calls = cs, outcome = Completed \<rparr>
                | Inr r \<Rightarrow> \<lparr> res = r, calls = cs, outcome = Completed \<rparr>))"

text \<open>
  The handler of \<^verbatim>\<open>POST /api/chat\<close> on the parsed request body. The validator runs before
  the \<^verbatim>\<open>try\<close> block, so an exception it raises rejects the handler's promise.
\<close>

definition chat_handler ::
  "coercion \<Rightarrow> config \<Rightarrow> (fetch_call \<Rightarrow> fetch_result) \<Rightarrow> jsval \<Rightarrow> handled" where
  "chat_handler co cfg fetch body =
     (if \<not> validateApiKey cfg
      then \<lparr> res = res_json (error_body (JStr ''Server configuration error.''))
                     (res_status 500 new_response),
             calls = [], outcome = Completed \<rparr>
      else (case validateChatRequest co body of
              Inl e \<Rightarrow> \<lparr> res = new_response, calls = [], outcome = Rejected e \<rparr>
            | Inr (Invalid msg) \<Rightarrow>
                \<lparr> res = res_json (error_body (JStr msg)) (res_status 400 new_response),
                  calls = [], outcome = Completed \<rparr>
            | Inr Valid \<Rightarrow>
                chat_dispatch cfg fetch
                  (opt_chain body ''messages'') (opt_chain body ''model'')
                  (opt_chain body ''temperature'') (opt_chain body ''max_tokens'')
                  (default_to (JBool False) (opt_chain body ''stream''))))"

section \<open>The client's stream reader\<close>

text \<open>
  \<^verbatim>\<open>ChatApp.streamResponse\<close> of public/chatbot.js. \<^verbatim>\<open>JSON.parse\<close> is the parameter \<open>parse\<close>,
  \<open>None\<close> where it raises a SyntaxError. The body of the \<^verbatim>\<open>try\<close> block for one payload:
  the content to append, \<open>None\<close> when the content is falsy, \<open>Inl\<close> an exception.
\<close>

definition try_payload :: "(string \<Rightarrow> jsval option) \<Rightarrow> string \<Rightarrow> js_error + jsval option" where
  "try_payload parse data =
     (case parse data of
        None \<Rightarrow> Inl SyntaxError
      | Some parsed \<Rightarrow>
          (case get_prop parsed ''choices'' of
             Inl e \<Rightarrow> Inl e
           | Inr choices \<Rightarrow>
               (case index0 choices of
                  Inl e \<Rightarrow> Inl e
                | Inr choice \<Rightarrow>
                    let content = js_or (opt_chain (opt_chain choice ''delta'') ''content'') (JStr [])
                    in if truthy content then Inr (Some content) else Inr None)))"

text \<open>
  The body of \<^verbatim>\<open>for (const line of lines)\<close>: the content delta the line adds to
  \<^verbatim>\<open>fullResponse\<close>, if any. The \<^verbatim>\<open>catch (e)\<close> ignores every exception of the \<^verbatim>\<open>try\<close> block.
\<close>

definition decode_line :: "(string \<Rightarrow> jsval option) \<Rightarrow> string \<Rightarrow> jsval option" where
  "decode_line parse line =
     (if is_data_line line
      then (let data = drop 6 line
            in if data = ''[DONE]'' then None
               else (case try_payload parse data of Inl e \<Rightarrow> None | Inr d \<Rightarrow> d))
      else None)"

text \<open>
  The lines the reader handles over the whole stream: every part of every chunk, each chunk
  split on its own; and the deltas it appends, in order.
\<close>

definition stream_lines :: "string list \<Rightarrow> string list" where
  "stream_lines chunks = concat (map split_nl chunks)"

definition streamResponse :: "(string \<Rightarrow> jsval option) \<Rightarrow> string list \<Rightarrow> jsval list" where
  "streamResponse parse chunks = List.map_filter (decode_line parse) (stream_lines chunks)"

section \<open>The validation rules as the specification words them\<close>

text \<open>
  The four rules of the specification, each as a predicate on the request body, and the
  validator they describe: the error of the first rule that fails. These follow the
  specification's words, to be compared with \<open>validateChatRequest\<close>.
\<close>

fun nonempty_text :: "jsval \<Rightarrow> bool" where
  "nonempty_text (JStr s) = (s \<noteq> [])"
| "nonempty_text JUndefined = False"
| "nonempty_text JNull = False"
| "nonempty_text (JBool b) = False"
| "nonempty_text (JNum r) = False"
| "nonempty_text (JArr xs) = False"
| "nonempty_text (JObj kvs) = False"

definition spec_complete_message :: "jsval \<Rightarrow> bool" where
  "spec_complete_message m =
     (nonempty_text (opt_chain m ''role'') \<and> nonempty_text (opt_chain m ''content''))"

text \<open>Rule 1: \<^verbatim>\<open>messages\<close> is present, is a sequence, and is not empty.\<close>

definition spec_rule1 :: "jsval \<Rightarrow> bool" where
  "spec_rule1 body = (case opt_chain body ''messages'' of JArr (m # ms) \<Rightarrow> True | _ \<Rightarrow> False)"

text \<open>Rule 2: every message has a non-empty role and a non-empty content.\<close>

definition spec_rule2 :: "jsval \<Rightarrow> bool" where
  "spec_rule2 body = list_all spec_complete_message (elements (opt_chain body ''messages''))"

text \<open>Rules 3 and 4: the field, if present, is a number within the bounds.\<close>

fun in_range_if_present :: "rat \<Rightarrow> rat \<Rightarrow> jsval \<Rightarrow> bool" where
  "in_range_if_present lo hi JUndefined = True"
| "in_range_if_present lo hi (JNum r) = (lo \<le> r \<and> r \<le> hi)"
| "in_range_if_present lo hi JNull = False"
| "in_range_if_present lo hi (JBool b) = False"
| "in_range_if_present lo hi (JStr s) = False"
| "in_range_if_present lo hi (JArr xs) = False"
| "in_range_if_present lo hi (JObj kvs) = False"

definition spec_validate :: "jsval \<Rightarrow> validation" where
  "spec_validate body =
     (if \<not> spec_rule1 body then Invalid MissingMessages
      else if \<not> spec_rule2 body then Invalid MalformedMessage
      else if \<not> in_range_if_present 0 2 (opt_chain body ''temperature'')
      then Invalid TemperatureOutOfRange
      else if \<not> in_range_if_present 1 4096 (opt_chain body ''max_tokens'')
      then Invalid MaxTokensOutOfRange
      else Valid)"

text \<open>
  The request bodies of the data model: a body and its messages are not \<^verbatim>\<open>null\<close>, a role
  and a content are text when present, a temperature and a token limit are numbers when
  present. Nothing is asked of \<^verbatim>\<open>messages\<close> itself.
\<close>

fun nullish :: "jsval \<Rightarrow> bool" where
  "nullish JUndefined = True"
| "nullish JNull = True"
| "nullish (JBool b) = False"
| "nullish (JNum r) = False"
| "nullish (JStr s) = False"
| "nullish (JArr xs) = False"
| "nullish (JObj kvs) = False"

fun text_or_absent :: "jsval \<Rightarrow> bool" where
  "text_or_absent JUndefined = True"
| "text_or_absent (JStr s) = True"
| "text_or_absent JNull = False"
| "text_or_absent (JBool b) = False"
| "text_or_absent (JNum r) = False"
| "text_or_absent (JArr xs) = False"
| "text_or_absent (JObj kvs) = False"

fun number_or_absent :: "jsval \<Rightarrow> bool" where
  "number_or_absent JUndefined = True"
| "number_or_absent (JNum r) = True"
| "number_or_absent JNull = False"
| "number_or_absent (JBool b) = False"
| "number_or_absent (JStr s) = False"
| "number_or_absent (JArr xs) = False"
| "number_or_absent (JObj kvs) = False"

definition typed_message :: "jsval \<Rightarrow> bool" where
  "typed_message m =
     (\<not> nullish m \<and> text_or_absent (opt_chain m ''role'')
      \<and> text_or_absent (opt_chain m ''content''))"

definition typed_body :: "jsval \<Rightarrow> bool" where
  "typed_body body =
     (\<not> nullish body
      \<and> list_all typed_message (elements (opt_chain body ''messages''))
      \<and> number_or_absent (opt_chain body ''temperature'')
      \<and> number_or_absent (opt_chain body ''max_tokens''))"

section \<open>The dispatched call\<close>

text \<open>The call of \<^verbatim>\<open>fetch\<close> that \<open>sendRequest\<close> makes for a body with an array of messages.\<close>

definition dispatched :: "config \<Rightarrow> jsval \<Rightarrow> fetch_call" where
  "dispatched cfg body =
     \<lparr> call_url = GROQ_API_URL, call_method = ''POST'',
       call_headers = [(''Authorization'', bearer cfg), (''Content-Type'', ''application/json'')],
       call_body = requestBody (elements (opt_chain body ''messages''))
                     (opt_chain body ''model'') (opt_chain body ''temperature'')
                     (opt_chain body ''max_tokens'')
                     (default_to (JBool False) (opt_chain body ''stream'')) \<rparr>"

text \<open>A property of the JSON body a response carries.\<close>

definition body_field :: "response \<Rightarrow> string \<Rightarrow> jsval" where
  "body_field r k = (case json_body r of None \<Rightarrow> JUndefined | Some v \<Rightarrow> opt_chain v k)"

section \<open>Server-sent events of a text\<close>

text \<open>
  The events of a text as the specification frames them: every line that begins with the
  marker, in order, each followed by a blank line. A chunk is line aligned when it is empty
  or ends with a line feed.
\<close>

definition sse_events :: "string \<Rightarrow> string list" where
  "sse_events text = map frame (filter is_data_line (split_nl text))"

definition line_aligned :: "string \<Rightarrow> bool" where
  "line_aligned chunk = (chunk = [] \<or> last chunk = CHR 0x0A)"

section \<open>The content delta of a payload\<close>

text \<open>
  The value at \<^verbatim>\<open>choices[0].delta.content\<close> of a parsed payload, \<^verbatim>\<open>undefined\<close> where a step
  of the path is missing.
\<close>

definition delta_content :: "jsval \<Rightarrow> jsval" where
  "delta_content parsed =
     (case index0 (opt_chain parsed ''choices'') of
        Inl e \<Rightarrow> JUndefined
      | Inr choice \<Rightarrow> opt_chain (opt_chain choice ''delta'') ''content'')"

section \<open>The buffered reader of the repository's documentation\<close>

text \<open>
  Documentation/chatbot_grammar_fix.md and the streaming section of the API documentation
  give the reader with a buffer: \<^verbatim>\<open>buffer += chunk; lines = buffer.split('\n');
  buffer = lines.pop() || ''\<close>, the lines then handled as before. One read: the complete
  lines it hands on, and the buffer it keeps. public/chatbot.js does not contain it.
\<close>

definition feed :: "string \<Rightarrow> string \<Rightarrow> string list \<times> string" where
  "feed buffer chunk = (let lines = split_nl (buffer @ chunk) in (butlast lines, last lines))"

text \<open>All reads of a stream: the lines handed on, in order, and the residual buffer.\<close>

fun feed_all :: "string \<Rightarrow> string list \<Rightarrow> string list \<times> string" where
  "feed_all buffer [] = ([], buffer)"
| "feed_all buffer (chunk # rest) =
     (case feed buffer chunk of
        (lines, buffer') \<Rightarrow>
          (case feed_all buffer' rest of (later, residual) \<Rightarrow> (lines @ later, residual)))"

section \<open>Concrete inputs\<close>

text \<open>
  A string conversion that gives NaN everywhere: what the language gives for a text that is
  no numeral, such as \<^verbatim>\<open>'hot'\<close>. The other inputs below never reach it.
\<close>

definition nan_coercion :: coercion where
  "nan_coercion v = Inr None"

text \<open>Configurations with and without a credential.\<close>

definition cfg_keyed :: config where
  "cfg_keyed = \<lparr> GROQ_API_KEY = Some ''gsk_test'', NODE_ENV = ''development'' \<rparr>"

definition cfg_unkeyed :: config where
  "cfg_unkeyed = \<lparr> GROQ_API_KEY = None, NODE_ENV = ''development'' \<rparr>"

text \<open>
  Request bodies; the conversation holds four messages, among them a system message of the
  caller's own.
\<close>

definition body_hello :: jsval where
  "body_hello = JObj [(''messages'', JArr [user_msg ''hi''])]"

definition body_custom :: jsval where
  "body_custom = JObj [(''messages'', JArr [user_msg ''hi'']), (''model'', JStr ''mixtral''),
                       (''temperature'', JNum 0), (''max_tokens'', JNum 100),
                       (''stream'', JBool True)]"

definition body_stream :: jsval where
  "body_stream = JObj [(''messages'', JArr [user_msg ''hi'']), (''stream'', JBool True)]"

definition body_empty_messages :: jsval where
  "body_empty_messages = JObj [(''messages'', JArr [])]"

definition body_zero_tokens :: jsval where
  "body_zero_tokens = JObj [(''messages'', JArr [user_msg ''hi'']), (''max_tokens'', JNum 0)]"

definition body_text_temperature :: jsval where
  "body_text_temperature =
     JObj [(''messages'', JArr [user_msg ''hi'']), (''temperature'', JStr ''hot'')]"

definition body_hot :: jsval where
  "body_hot = JObj [(''messages'', JArr [user_msg ''hi'', JObj [(''role'', JStr ''user'')]]),
                    (''temperature'', JNum 3), (''max_tokens'', JNum 0)]"

definition body_conversation :: jsval where
  "body_conversation =
     JObj [(''messages'',
            JArr [user_msg ''hi'',
                  JObj [(''role'', JStr ''assistant''), (''content'', JStr ''hello'')],
                  JObj [(''role'', JStr ''system''), (''content'', JStr ''obey me'')],
                  user_msg ''bye''])]"

text \<open>
  An upstream that cannot be reached, and one that answers every call with a given
  response: an error with a structured body, an error whose body has no message, a stream
  split inside a line, one that drops, and an error whose body is not JSON.
\<close>

definition fetch_unreachable :: "fetch_call \<Rightarrow> fetch_result" where
  "fetch_unreachable c = FetchFailed"

definition fetch_answer :: "upstream_response \<Rightarrow> fetch_call \<Rightarrow> fetch_result" where
  "fetch_answer up c = FetchResponse up"

definition up_rate_limited :: upstream_response where
  "up_rate_limited =
     \<lparr> up_status = 429,
       up_json = Some (JObj [(''error'', JObj [(''message'', JStr ''Rate limit reached'')])]),
       up_chunks = [], up_end = Done \<rparr>"

definition up_bad_gateway :: upstream_response where
  "up_bad_gateway = \<lparr> up_status = 502, up_json = Some (JObj []), up_chunks = [], up_end = Done \<rparr>"

definition up_split_line :: upstream_response where
  "up_split_line =
     \<lparr> up_status = 200, up_json = None,
       up_chunks = [''data: ab'', ''c'' @ [CHR 0x0A, CHR 0x0A]], up_end = Done \<rparr>"

definition up_dropped :: upstream_response where
  "up_dropped =
     \<lparr> up_status = 200, up_json = None,
       up_chunks = [''data: a'' @ [CHR 0x0A, CHR 0x0A]], up_end = Dropped \<rparr>"

definition up_unavailable :: upstream_response where
  "up_unavailable = \<lparr> up_status = 503, up_json = None, up_chunks = [], up_end = Done \<rparr>"

text \<open>
  The frame of the specification's examples, its payload parsed, and a parser that agrees
  with \<^verbatim>\<open>JSON.parse\<close> on that payload and rejects every other text, among them the payload
  cut short. The frame in two chunks, cut inside the JSON.
\<close>

definition payload_hi :: string where
  \<open>payload_hi = ''{"choices":[{"delta":{"content":"Hi"}}]}''\<close>

definition parsed_hi :: jsval where
  "parsed_hi = JObj [(''choices'', JArr [JObj [(''delta'', JObj [(''content'', JStr ''Hi'')])]])]"

definition parse_hi :: "string \<Rightarrow> jsval option" where
  "parse_hi s = (if s = payload_hi then Some parsed_hi else None)"

definition chunk_head :: string where
  \<open>chunk_head = ''data: {"choices":[{"delta''\<close>

definition line_tail :: string where
  \<open>line_tail = ''":{"content":"Hi"}}]}''\<close>

definition chunk_tail :: string where
  "chunk_tail = line_tail @ [CHR 0x0A, CHR 0x0A]"

section \<open>Reading properties\<close>

lemma get_prop_not_nullish: "\<not> nullish v \<Longrightarrow> get_prop v k = Inr (opt_chain v k)"
  by (cases v) simp_all

lemma truthy_text: "text_or_absent v \<Longrightarrow> truthy v = nonempty_text v"
  by (cases v) simp_all

section \<open>Properties of the validator\<close>

text \<open>
  C5, evaluated on the code. The claim has a present \<^verbatim>\<open>max_tokens\<close> of 0 rejected with
  the max-tokens error. The guard \<^verbatim>\<open>max_tokens && ...\<close> treats the number 0 as absent, so the
  body \<^verbatim>\<open>{messages: [{role: 'user', content: 'hi'}], max_tokens: 0}\<close> is accepted, whatever the
  string conversion \<open>co\<close> is.
\<close>

theorem validate_max_tokens_zero_accepted:
  "validateChatRequest co
     (JObj [(''messages'', JArr [user_msg ''hi'']), (''max_tokens'', JNum 0)]) = Inr Valid"
  by (simp add: validateChatRequest_def user_msg_def out_of_range_def)

text \<open>The evaluation of C5 at one string conversion.\<close>

theorem validate_max_tokens_zero_accepted_witness:
  "validateChatRequest nan_coercion
     (JObj [(''messages'', JArr [user_msg ''hi'']), (''max_tokens'', JNum 0)]) = Inr Valid"
  using validate_max_tokens_zero_accepted [of nan_coercion] .

lemma some_incomplete_typed:
  "list_all typed_message ms \<Longrightarrow>
     some_incomplete ms = Inr (\<not> list_all spec_complete_message ms)"
proof (induction ms)
  case Nil
  then show ?case by simp
next
  case (Cons m ms)
  from Cons.prems have tm: "typed_message m" and ms: "list_all typed_message ms"
    by simp_all
  from tm have m: "\<not> nullish m" "text_or_absent (opt_chain m ''role'')"
      "text_or_absent (opt_chain m ''content'')"
    by (simp_all add: typed_message_def)
  show ?case
    using Cons.IH [OF ms] m
    by (simp add: get_prop_not_nullish truthy_text spec_complete_message_def)
qed

lemma out_of_range_number:
  assumes "number_or_absent v" and "v = JNum 0 \<longrightarrow> lo \<le> 0 \<and> 0 \<le> hi"
  shows "out_of_range co v lo hi = Inr (\<not> in_range_if_present lo hi v)"
  using assms
  by (cases v) (auto simp: out_of_range_def js_lt_def js_gt_def split: bool.splits)

lemma rule1_code:
  "(\<not> truthy v \<or> \<not> isArray v \<or> length (elements v) = 0)
     = (\<not> (case v of JArr (m # ms) \<Rightarrow> True | _ \<Rightarrow> False))"
  by (cases v) (auto split: list.splits)

text \<open>The validator on a body that is not \<^verbatim>\<open>null\<close>: the destructuring does not raise.\<close>

lemma validate_not_nullish:
  assumes "\<not> nullish body"
  shows "validateChatRequest co body =
     (if \<not> spec_rule1 body then Inr (Invalid MissingMessages)
      else (case some_incomplete (elements (opt_chain body ''messages'')) of
              Inl e \<Rightarrow> Inl e
            | Inr True \<Rightarrow> Inr (Invalid MalformedMessage)
            | Inr False \<Rightarrow>
                (case out_of_range co (opt_chain body ''temperature'') 0 2 of
                   Inl e \<Rightarrow> Inl e
                 | Inr True \<Rightarrow> Inr (Invalid TemperatureOutOfRange)
                 | Inr False \<Rightarrow>
                     (case out_of_range co (opt_chain body ''max_tokens'') 1 4096 of
                        Inl e \<Rightarrow> Inl e
                      | Inr True \<Rightarrow> Inr (Invalid MaxTokensOutOfRange)
                      | Inr False \<Rightarrow> Inr Valid))))"
proof -
  have c: "(\<not> truthy (opt_chain body ''messages'') \<or> \<not> isArray (opt_chain body ''messages'')
            \<or> length (elements (opt_chain body ''messages'')) = 0) = (\<not> spec_rule1 body)"
    unfolding spec_rule1_def by (rule rule1_code)
  show ?thesis
    unfolding validateChatRequest_def get_prop_not_nullish [OF assms] sum.case c ..
qed

text \<open>
  C4, as amended. On the request bodies of the data model, \<open>validateChatRequest\<close> is a
  function of the body that returns what the four rules of the specification give when
  they are checked in their order and the first failure wins: the error of the first
  violated rule, \<open>Valid\<close> when none is violated. The case left out is a \<^verbatim>\<open>max_tokens\<close> of 0
  that reaches rule 4. The result does not depend on the string conversion \<open>co\<close>.
\<close>

theorem validate_refines_spec_rules:
  assumes typed: "typed_body body"
    and nonzero: "\<not> (opt_chain body ''max_tokens'' = JNum 0
                     \<and> spec_validate body = Invalid MaxTokensOutOfRange)"
  shows "validateChatRequest co body = Inr (spec_validate body)"
proof -
  from typed have obj: "\<not> nullish body"
    and msgs: "list_all typed_message (elements (opt_chain body ''messages''))"
    and temp: "number_or_absent (opt_chain body ''temperature'')"
    and maxtok: "number_or_absent (opt_chain body ''max_tokens'')"
    by (simp_all add: typed_body_def)
  have t: "out_of_range co (opt_chain body ''temperature'') 0 2
             = Inr (\<not> in_range_if_present 0 2 (opt_chain body ''temperature''))"
    by (rule out_of_range_number [OF temp]) simp
  show ?thesis
  proof (cases "opt_chain body ''max_tokens'' = JNum 0")
    case False
    then have m: "out_of_range co (opt_chain body ''max_tokens'') 1 4096
             = Inr (\<not> in_range_if_present 1 4096 (opt_chain body ''max_tokens''))"
      by (intro out_of_range_number [OF maxtok]) simp
    show ?thesis
      by (simp add: validate_not_nullish [OF obj] some_incomplete_typed [OF msgs] t m
          spec_validate_def spec_rule2_def)
  next
    case True
    with nonzero have nz: "spec_validate body \<noteq> Invalid MaxTokensOutOfRange" by simp
    have m: "out_of_range co (opt_chain body ''max_tokens'') 1 4096 = Inr False"
      using True by (simp add: out_of_range_def)
    show ?thesis using nz
      by (simp add: validate_not_nullish [OF obj] some_incomplete_typed [OF msgs] t m
          spec_validate_def spec_rule2_def split: if_splits)
  qed
qed

text \<open>
  The theorem at a body that violates rules 2 and 3 and carries a \<^verbatim>\<open>max_tokens\<close> of 0:
  the second message has no content, so the error of rule 2 is returned.
\<close>

theorem validate_refines_spec_rules_witness:
  "typed_body body_hot
   \<and> \<not> (opt_chain body_hot ''max_tokens'' = JNum 0
         \<and> spec_validate body_hot = Invalid MaxTokensOutOfRange)
   \<and> validateChatRequest nan_coercion body_hot = Inr (Invalid MalformedMessage)"
proof -
  have t: "typed_body body_hot"
    by (simp add: body_hot_def typed_body_def typed_message_def user_msg_def)
  have s: "spec_validate body_hot = Invalid MalformedMessage"
    by (simp add: body_hot_def spec_validate_def spec_rule1_def spec_rule2_def
        spec_complete_message_def user_msg_def)
  have n: "\<not> (opt_chain body_hot ''max_tokens'' = JNum 0
         \<and> spec_validate body_hot = Invalid MaxTokensOutOfRange)"
    by (simp add: s MalformedMessage_def MaxTokensOutOfRange_def)
  show ?thesis
    using validate_refines_spec_rules [OF t n, of nan_coercion] t n s by simp
qed

text \<open>
  C4 as it is stated fails. The body \<^verbatim>\<open>{messages: [{role: 'user', content: 'hi'}],
  max_tokens: 0}\<close> is a body of the data model, its first violated rule is rule 4, and the
  validator returns \<open>Valid\<close>. The body \<^verbatim>\<open>{messages: [{role: 'user', content: 'hi'}],
  temperature: 'hot'}\<close> violates rule 3, and the validator, which checks no types, compares
  NaN with the bounds and returns \<open>Valid\<close>.
\<close>

theorem validate_first_failure_counterexample:
  "typed_body body_zero_tokens
   \<and> spec_validate body_zero_tokens = Invalid MaxTokensOutOfRange
   \<and> validateChatRequest nan_coercion body_zero_tokens = Inr Valid
   \<and> spec_validate body_text_temperature = Invalid TemperatureOutOfRange
   \<and> validateChatRequest nan_coercion body_text_temperature = Inr Valid"
  by (simp add: body_zero_tokens_def body_text_temperature_def typed_body_def typed_message_def
      user_msg_def spec_validate_def spec_rule1_def spec_rule2_def spec_complete_message_def
      validateChatRequest_def out_of_range_def js_lt_def js_gt_def nan_coercion_def)

section \<open>Properties of the chat handler\<close>

text \<open>A body the validator accepts has a non-empty array of messages.\<close>

lemma valid_messages_array:
  assumes "validateChatRequest co body = Inr Valid"
  shows "\<not> nullish body \<and> isArray (opt_chain body ''messages'')
         \<and> elements (opt_chain body ''messages'') \<noteq> []"
proof -
  have nn: "\<not> nullish body"
    using assms by (cases body) (simp_all add: validateChatRequest_def)
  have "spec_rule1 body"
    using assms by (simp add: validate_not_nullish [OF nn] split: if_splits)
  then show ?thesis
    using nn by (cases "opt_chain body ''messages''") (auto simp: spec_rule1_def split: list.splits)
qed

text \<open>On an array of messages the spread does not raise, and exactly one call is made.\<close>

lemma sendRequest_array:
  "isArray msgs \<Longrightarrow>
   sendRequest cfg fetch msgs mdl temp maxtok strm =
     (let call = \<lparr> call_url = GROQ_API_URL, call_method = ''POST'',
                    call_headers = [(''Authorization'', bearer cfg),
                                    (''Content-Type'', ''application/json'')],
                    call_body = requestBody (elements msgs) mdl temp maxtok strm \<rparr>
      in ([call], case fetch call of FetchFailed \<Rightarrow> Inl FetchError | FetchResponse up \<Rightarrow> Inr up))"
  by (cases msgs) (simp_all add: sendRequest_def Let_def split: fetch_result.splits)

lemma calls_chat_dispatch:
  "isArray msgs \<Longrightarrow>
   calls (chat_dispatch cfg fetch msgs mdl temp maxtok strm) =
     [\<lparr> call_url = GROQ_API_URL, call_method = ''POST'',
        call_headers = [(''Authorization'', bearer cfg), (''Content-Type'', ''application/json'')],
        call_body = requestBody (elements msgs) mdl temp maxtok strm \<rparr>]"
  by (simp add: chat_dispatch_def sendRequest_array Let_def split: fetch_result.splits sum.splits)

text \<open>
  The upstream calls of the handler: one, when the credential is configured and the body is
  valid; none otherwise.
\<close>

lemma calls_chat_handler:
  "calls (chat_handler co cfg fetch body) =
     (if validateApiKey cfg \<and> validateChatRequest co body = Inr Valid
      then [dispatched cfg body] else [])"
proof (cases "validateApiKey cfg \<and> validateChatRequest co body = Inr Valid")
  case True
  then have arr: "isArray (opt_chain body ''messages'')"
    using valid_messages_array by blast
  show ?thesis
    using True by (simp add: chat_handler_def calls_chat_dispatch [OF arr] dispatched_def)
next
  case False
  then show ?thesis
    by (auto simp: chat_handler_def split: sum.splits validation.splits)
qed

lemma opt_chain_requestBody:
  "opt_chain (requestBody ms mdl temp maxtok strm) ''messages'' = JArr (systemMessage # ms)"
  "opt_chain (requestBody ms mdl temp maxtok strm) ''model''
     = default_to (JStr ''llama-3.3-70b-versatile'') mdl"
  "opt_chain (requestBody ms mdl temp maxtok strm) ''temperature'' = default_to (JNum (7 / 10)) temp"
  "opt_chain (requestBody ms mdl temp maxtok strm) ''max_tokens'' = default_to (JNum 2048) maxtok"
  "opt_chain (requestBody ms mdl temp maxtok strm) ''stream'' = default_to (JBool False) strm"
  by (simp_all add: requestBody_def MAX_TOKENS_def)

text \<open>
  C6, as amended. For every request body on which the validator returns an error, the
  handler makes no upstream call, whatever the configuration; when the upstream credential
  is configured it responds 400 with the validator's message as the error, and ends the
  response. For a body with \<^verbatim>\<open>messages: []\<close> the message is the missing-messages error.
\<close>

theorem invalid_request_rejected:
  assumes "validateChatRequest co body = Inr (Invalid msg)"
  shows "calls (chat_handler co cfg fetch body) = []
     \<and> (validateApiKey cfg \<longrightarrow>
          statusCode (res (chat_handler co cfg fetch body)) = 400
          \<and> json_body (res (chat_handler co cfg fetch body)) = Some (JObj [(''error'', JStr msg)])
          \<and> ended (res (chat_handler co cfg fetch body))
          \<and> outcome (chat_handler co cfg fetch body) = Completed)
     \<and> (opt_chain body ''messages'' = JArr [] \<longrightarrow> msg = MissingMessages)"
proof -
  have nn: "\<not> nullish body"
    using assms by (cases body) (simp_all add: validateChatRequest_def)
  have "opt_chain body ''messages'' = JArr [] \<Longrightarrow> msg = MissingMessages"
    using assms by (simp add: validate_not_nullish [OF nn] spec_rule1_def)
  then show ?thesis
    using assms
    by (simp add: calls_chat_handler chat_handler_def res_json_def res_status_def
        res_setHeader_def new_response_def error_body_def)
qed

text \<open>The theorem at \<^verbatim>\<open>{messages: []}\<close> with a credential configured.\<close>

theorem invalid_request_rejected_witness:
  "validateChatRequest nan_coercion body_empty_messages = Inr (Invalid MissingMessages)
   \<and> validateApiKey cfg_keyed
   \<and> calls (chat_handler nan_coercion cfg_keyed fetch_unreachable body_empty_messages) = []
   \<and> statusCode (res (chat_handler nan_coercion cfg_keyed fetch_unreachable body_empty_messages)) = 400
   \<and> json_body (res (chat_handler nan_coercion cfg_keyed fetch_unreachable body_empty_messages))
       = Some (JObj [(''error'', JStr MissingMessages)])"
proof -
  have v: "validateChatRequest nan_coercion body_empty_messages = Inr (Invalid MissingMessages)"
    by (simp add: validateChatRequest_def body_empty_messages_def)
  have k: "validateApiKey cfg_keyed"
    by (simp add: validateApiKey_def cfg_keyed_def)
  show ?thesis
    using invalid_request_rejected [OF v, of cfg_keyed fetch_unreachable] v k by simp
qed

text \<open>
  C6 as it is stated fails: without a credential the handler answers the invalid body
  \<^verbatim>\<open>{messages: []}\<close> with 500 and the configuration error, since the credential check
  comes before the validation.
\<close>

theorem invalid_request_without_key_counterexample:
  "validateChatRequest nan_coercion body_empty_messages = Inr (Invalid MissingMessages)
   \<and> statusCode (res (chat_handler nan_coercion cfg_unkeyed fetch_unreachable body_empty_messages))
       = 500
   \<and> json_body (res (chat_handler nan_coercion cfg_unkeyed fetch_unreachable body_empty_messages))
       = Some (JObj [(''error'', JStr ''Server configuration error.'')])"
  by (simp add: validateChatRequest_def body_empty_messages_def chat_handler_def
      validateApiKey_def cfg_unkeyed_def res_json_def res_status_def res_setHeader_def
      new_response_def error_body_def)

text \<open>
  C7. When no upstream credential is configured (the environment variable is unset or
  empty), the chat handler responds 500 with \<^verbatim>\<open>{error: 'Server configuration error.'}\<close> and
  makes no upstream call, and the health handler responds 503 with status
  \<^verbatim>\<open>degraded\<close> and \<^verbatim>\<open>apiConfigured: false\<close>. When a credential is configured, the health
  handler responds 200 with status \<^verbatim>\<open>ok\<close> and \<^verbatim>\<open>apiConfigured: true\<close>.
\<close>

theorem credential_check:
  "((GROQ_API_KEY cfg = None \<or> GROQ_API_KEY cfg = Some []) \<longrightarrow>
       statusCode (res (chat_handler co cfg fetch body)) = 500
     \<and> json_body (res (chat_handler co cfg fetch body))
         = Some (JObj [(''error'', JStr ''Server configuration error.'')])
     \<and> calls (chat_handler co cfg fetch body) = []
     \<and> statusCode (health_handler cfg now) = 503
     \<and> body_field (health_handler cfg now) ''status'' = JStr ''degraded''
     \<and> body_field (health_handler cfg now) ''apiConfigured'' = JBool False)
   \<and> ((\<exists>k. GROQ_API_KEY cfg = Some k \<and> k \<noteq> []) \<longrightarrow>
       statusCode (health_handler cfg now) = 200
     \<and> body_field (health_handler cfg now) ''status'' = JStr ''ok''
     \<and> body_field (health_handler cfg now) ''apiConfigured'' = JBool True)"
  by (auto simp: chat_handler_def validateApiKey_def health_handler_def body_field_def
      res_json_def res_status_def res_setHeader_def new_response_def error_body_def)

text \<open>The theorem at a configuration without a key and at one with a key.\<close>

theorem credential_check_witness:
  "(GROQ_API_KEY cfg_unkeyed = None \<or> GROQ_API_KEY cfg_unkeyed = Some [])
   \<and> statusCode (res (chat_handler nan_coercion cfg_unkeyed fetch_unreachable body_hello)) = 500
   \<and> calls (chat_handler nan_coercion cfg_unkeyed fetch_unreachable body_hello) = []
   \<and> statusCode (health_handler cfg_unkeyed ''2025-01-01T00:00:00.000Z'') = 503
   \<and> (\<exists>k. GROQ_API_KEY cfg_keyed = Some k \<and> k \<noteq> [])
   \<and> statusCode (health_handler cfg_keyed ''2025-01-01T00:00:00.000Z'') = 200
   \<and> body_field (health_handler cfg_keyed ''2025-01-01T00:00:00.000Z'') ''apiConfigured''
       = JBool True"
proof -
  have a: "GROQ_API_KEY cfg_unkeyed = None \<or> GROQ_API_KEY cfg_unkeyed = Some []"
    by (simp add: cfg_unkeyed_def)
  have b: "\<exists>k. GROQ_API_KEY cfg_keyed = Some k \<and> k \<noteq> []"
    by (simp add: cfg_keyed_def)
  show ?thesis
    using credential_check [of cfg_unkeyed nan_coercion fetch_unreachable body_hello
        "''2025-01-01T00:00:00.000Z''"]
      credential_check [of cfg_keyed nan_coercion fetch_unreachable body_hello
        "''2025-01-01T00:00:00.000Z''"] a b
    by simp
qed

text \<open>The text of the system message: its length, its first line and its last.\<close>

lemma COMPANY_CONTEXT_length: "length COMPANY_CONTEXT = 1943"
  by (simp add: COMPANY_CONTEXT_def)

lemma COMPANY_CONTEXT_first_line:
  "take 122 COMPANY_CONTEXT = ''You are an AI assistant for AI Global Networks, a leading company specializing in AI automation and integration solutions.''"
  by (simp add: COMPANY_CONTEXT_def)

lemma COMPANY_CONTEXT_last_line:
  "drop 1891 COMPANY_CONTEXT = ''- Always maintain a positive, solution-oriented tone''"
  by (simp add: COMPANY_CONTEXT_def)

text \<open>
  C8. In every request the handler dispatches upstream, the messages sent are the fixed
  system message, with role \<^verbatim>\<open>system\<close> and the server's company context as content,
  followed by the caller's messages in their order. The statement holds for every request
  body, so nothing in the body replaces, removes or overrides the first message. A valid
  request with a configured credential is dispatched exactly once. The company context is
  the 1943 characters from \<^verbatim>\<open>You are an AI assistant for AI Global Networks\<close> to
  \<^verbatim>\<open>solution-oriented tone\<close>.
\<close>

theorem system_message_first:
  "(\<forall>c \<in> set (calls (chat_handler co cfg fetch body)).
      isArray (opt_chain body ''messages'')
      \<and> opt_chain (call_body c) ''messages''
          = JArr (JObj [(''role'', JStr ''system''), (''content'', JStr COMPANY_CONTEXT)]
                  # elements (opt_chain body ''messages'')))
   \<and> (validateApiKey cfg \<and> validateChatRequest co body = Inr Valid \<longrightarrow>
        length (calls (chat_handler co cfg fetch body)) = 1)
   \<and> length COMPANY_CONTEXT = 1943
   \<and> take 122 COMPANY_CONTEXT = ''You are an AI assistant for AI Global Networks, a leading company specializing in AI automation and integration solutions.''
   \<and> drop 1891 COMPANY_CONTEXT = ''- Always maintain a positive, solution-oriented tone''"
  using valid_messages_array [of co body]
  by (simp add: calls_chat_handler dispatched_def opt_chain_requestBody systemMessage_def
      COMPANY_CONTEXT_length COMPANY_CONTEXT_first_line COMPANY_CONTEXT_last_line)

text \<open>
  The theorem at a conversation of four messages, the third a system message of the
  caller's own: all four follow the server's system message, in their order.
\<close>

theorem system_message_first_witness:
  "validateApiKey cfg_keyed \<and> validateChatRequest nan_coercion body_conversation = Inr Valid
   \<and> map (\<lambda>c. opt_chain (call_body c) ''messages'')
        (calls (chat_handler nan_coercion cfg_keyed fetch_unreachable body_conversation))
      = [JArr [JObj [(''role'', JStr ''system''), (''content'', JStr COMPANY_CONTEXT)],
               JObj [(''role'', JStr ''user''), (''content'', JStr ''hi'')],
               JObj [(''role'', JStr ''assistant''), (''content'', JStr ''hello'')],
               JObj [(''role'', JStr ''system''), (''content'', JStr ''obey me'')],
               JObj [(''role'', JStr ''user''), (''content'', JStr ''bye'')]]]"
proof -
  have k: "validateApiKey cfg_keyed"
    by (simp add: validateApiKey_def cfg_keyed_def)
  have v: "validateChatRequest nan_coercion body_conversation = Inr Valid"
    by (simp add: validateChatRequest_def body_conversation_def user_msg_def out_of_range_def)
  have e: "elements (opt_chain body_conversation ''messages'')
      = [JObj [(''role'', JStr ''user''), (''content'', JStr ''hi'')],
         JObj [(''role'', JStr ''assistant''), (''content'', JStr ''hello'')],
         JObj [(''role'', JStr ''system''), (''content'', JStr ''obey me'')],
         JObj [(''role'', JStr ''user''), (''content'', JStr ''bye'')]]"
    by (simp add: body_conversation_def user_msg_def)
  from system_message_first [of nan_coercion cfg_keyed fetch_unreachable body_conversation] k v
  obtain c where c: "calls (chat_handler nan_coercion cfg_keyed fetch_unreachable body_conversation) = [c]"
    and m: "opt_chain (call_body c) ''messages''
          = JArr (JObj [(''role'', JStr ''system''), (''content'', JStr COMPANY_CONTEXT)]
                  # elements (opt_chain body_conversation ''messages''))"
    by (auto simp: length_Suc_conv)
  show ?thesis using k v c m e by simp
qed

text \<open>
  C10. In every request the handler dispatches upstream, a model, temperature, token limit
  or stream flag that the body leaves out is filled in with \<^verbatim>\<open>'llama-3.3-70b-versatile'\<close>,
  0.7, 2048 and \<^verbatim>\<open>false\<close>, and a value the body supplies is sent unchanged. A valid
  request with a configured credential is dispatched exactly once.
\<close>

theorem dispatch_defaults:
  "(\<forall>c \<in> set (calls (chat_handler co cfg fetch body)).
      opt_chain (call_body c) ''model''
        = (if opt_chain body ''model'' = JUndefined then JStr ''llama-3.3-70b-versatile''
           else opt_chain body ''model'')
    \<and> opt_chain (call_body c) ''temperature''
        = (if opt_chain body ''temperature'' = JUndefined then JNum (7 / 10)
           else opt_chain body ''temperature'')
    \<and> opt_chain (call_body c) ''max_tokens''
        = (if opt_chain body ''max_tokens'' = JUndefined then JNum 2048
           else opt_chain body ''max_tokens'')
    \<and> opt_chain (call_body c) ''stream''
        = (if opt_chain body ''stream'' = JUndefined then JBool False
           else opt_chain body ''stream''))
   \<and> (validateApiKey cfg \<and> validateChatRequest co body = Inr Valid \<longrightarrow>
        length (calls (chat_handler co cfg fetch body)) = 1)"
  by (simp add: calls_chat_handler dispatched_def opt_chain_requestBody default_to_def)

text \<open>
  The theorem at a body that leaves all four fields out and at a body that supplies all
  four, among them a temperature of 0.
\<close>

theorem dispatch_defaults_witness:
  "validateApiKey cfg_keyed
   \<and> validateChatRequest nan_coercion body_hello = Inr Valid
   \<and> validateChatRequest nan_coercion body_custom = Inr Valid
   \<and> map (\<lambda>c. (opt_chain (call_body c) ''model'', opt_chain (call_body c) ''temperature'',
                opt_chain (call_body c) ''max_tokens'', opt_chain (call_body c) ''stream''))
        (calls (chat_handler nan_coercion cfg_keyed fetch_unreachable body_hello))
      = [(JStr ''llama-3.3-70b-versatile'', JNum (7 / 10), JNum 2048, JBool False)]
   \<and> map (\<lambda>c. (opt_chain (call_body c) ''model'', opt_chain (call_body c) ''temperature'',
                opt_chain (call_body c) ''max_tokens'', opt_chain (call_body c) ''stream''))
        (calls (chat_handler nan_coercion cfg_keyed fetch_unreachable body_custom))
      = [(JStr ''mixtral'', JNum 0, JNum 100, JBool True)]"
proof -
  have k: "validateApiKey cfg_keyed"
    by (simp add: validateApiKey_def cfg_keyed_def)
  have v1: "validateChatRequest nan_coercion body_hello = Inr Valid"
    by (simp add: validateChatRequest_def body_hello_def user_msg_def out_of_range_def)
  have v2: "validateChatRequest nan_coercion body_custom = Inr Valid"
    by (simp add: validateChatRequest_def body_custom_def user_msg_def out_of_range_def
        js_lt_def js_gt_def)
  have f1: "opt_chain body_hello ''model'' = JUndefined"
    "opt_chain body_hello ''temperature'' = JUndefined"
    "opt_chain body_hello ''max_tokens'' = JUndefined"
    "opt_chain body_hello ''stream'' = JUndefined"
    by (simp_all add: body_hello_def)
  have f2: "opt_chain body_custom ''model'' = JStr ''mixtral''"
    "opt_chain body_custom ''temperature'' = JNum 0"
    "opt_chain body_custom ''max_tokens'' = JNum 100"
    "opt_chain body_custom ''stream'' = JBool True"
    by (simp_all add: body_custom_def)
  from dispatch_defaults [of nan_coercion cfg_keyed fetch_unreachable body_hello] k v1
  obtain c1 where c1: "calls (chat_handler nan_coercion cfg_keyed fetch_unreachable body_hello) = [c1]"
    and d1: "opt_chain (call_body c1) ''model'' = JStr ''llama-3.3-70b-versatile''"
      "opt_chain (call_body c1) ''temperature'' = JNum (7 / 10)"
      "opt_chain (call_body c1) ''max_tokens'' = JNum 2048"
      "opt_chain (call_body c1) ''stream'' = JBool False"
    by (auto simp: length_Suc_conv f1)
  from dispatch_defaults [of nan_coercion cfg_keyed fetch_unreachable body_custom] k v2
  obtain c2 where c2: "calls (chat_handler nan_coercion cfg_keyed fetch_unreachable body_custom) = [c2]"
    and d2: "opt_chain (call_body c2) ''model'' = JStr ''mixtral''"
      "opt_chain (call_body c2) ''temperature'' = JNum 0"
      "opt_chain (call_body c2) ''max_tokens'' = JNum 100"
      "opt_chain (call_body c2) ''stream'' = JBool True"
    by (auto simp: length_Suc_conv f2)
  show ?thesis
    using k v1 v2 c1 d1 c2 d2 by simp
qed

text \<open>The handler on a valid request that the upstream answers.\<close>

lemma chat_handler_answered:
  assumes key: "validateApiKey cfg"
    and valid: "validateChatRequest co body = Inr Valid"
    and answer: "fetch (dispatched cfg body) = FetchResponse up"
  shows "chat_handler co cfg fetch body =
     \<lparr> res = (if \<not> ok up
               then (case upstream_error_reply up new_response of
                       Inl e \<Rightarrow> unexpected new_response | Inr r \<Rightarrow> r)
               else if truthy (opt_chain body ''stream'')
               then stream_reply up new_response
               else (case json_reply up new_response of
                       Inl e \<Rightarrow> unexpected new_response | Inr r \<Rightarrow> r)),
       calls = [dispatched cfg body], outcome = Completed \<rparr>"
proof -
  have arr: "isArray (opt_chain body ''messages'')"
    using valid_messages_array [OF valid] by simp
  have s: "truthy (default_to (JBool False) (opt_chain body ''stream''))
             = truthy (opt_chain body ''stream'')"
    by (simp add: default_to_def)
  show ?thesis
    using answer [unfolded dispatched_def]
    by (simp add: chat_handler_def key valid chat_dispatch_def sendRequest_array [OF arr]
        dispatched_def s split: sum.splits)
qed

text \<open>
  C9, as amended. When the upstream answers a dispatched request with a status that is not
  a success, and its error body parses as JSON to anything but \<^verbatim>\<open>null\<close>, the handler
  responds with the upstream's status code and with an error body whose message is
  \<^verbatim>\<open>errorData.error.message\<close> of the parsed upstream body; when that message is absent (or
  empty) the message is the generic \<^verbatim>\<open>'AI service error'\<close>. When the error body does not
  parse as JSON, or parses to \<^verbatim>\<open>null\<close>, the handler responds 500 with the message of its
  outer \<^verbatim>\<open>catch\<close>. In both cases the response is ended.
\<close>

theorem upstream_error_forwarded:
  assumes "c \<in> set (calls (chat_handler co cfg fetch body))"
    and "fetch c = FetchResponse up"
    and "\<not> ok up"
  shows "(\<forall>errorData. up_json up = Some errorData \<and> \<not> nullish errorData \<longrightarrow>
            statusCode (res (chat_handler co cfg fetch body)) = up_status up
          \<and> json_body (res (chat_handler co cfg fetch body))
              = Some (JObj [(''error'',
                   if truthy (opt_chain (opt_chain errorData ''error'') ''message'')
                   then opt_chain (opt_chain errorData ''error'') ''message''
                   else JStr ''AI service error'')]))
     \<and> ((case up_json up of None \<Rightarrow> True | Some errorData \<Rightarrow> nullish errorData) \<longrightarrow>
            statusCode (res (chat_handler co cfg fetch body)) = 500
          \<and> json_body (res (chat_handler co cfg fetch body))
              = Some (JObj [(''error'', JStr ''An unexpected error occurred. Please try again.'')]))
     \<and> ended (res (chat_handler co cfg fetch body))
     \<and> outcome (chat_handler co cfg fetch body) = Completed"
proof -
  from assms(1) have key: "validateApiKey cfg"
    and valid: "validateChatRequest co body = Inr Valid" and c: "c = dispatched cfg body"
    by (simp_all add: calls_chat_handler split: if_splits)
  have answer: "fetch (dispatched cfg body) = FetchResponse up"
    using assms(2) c by simp
  note h = chat_handler_answered [where fetch = fetch, OF key valid answer]
  show ?thesis
  proof (cases "up_json up")
    case None
    then show ?thesis
      using assms(3)
      by (simp add: h upstream_error_reply_def unexpected_def error_body_def res_json_def
          res_status_def new_response_def)
  next
    case (Some errorData)
    show ?thesis
    proof (cases "nullish errorData")
      case True
      then have "get_prop errorData ''error'' = Inl TypeError"
        by (cases errorData) simp_all
      then show ?thesis
        using assms(3) Some True
        by (simp add: h upstream_error_reply_def unexpected_def error_body_def res_json_def
            res_status_def new_response_def)
    next
      case False
      then show ?thesis
        using assms(3) Some
        by (simp add: h upstream_error_reply_def get_prop_not_nullish js_or_def error_body_def
            res_json_def res_status_def)
    qed
  qed
qed

text \<open>
  The theorem at a 429 with \<^verbatim>\<open>{error: {message: 'Rate limit reached'}}\<close>, at a 502 with
  the body \<^verbatim>\<open>{}\<close>, and at a 503 whose body is not JSON.
\<close>

theorem upstream_error_forwarded_witness:
  "dispatched cfg_keyed body_hello
      \<in> set (calls (chat_handler nan_coercion cfg_keyed (fetch_answer up_rate_limited) body_hello))
   \<and> \<not> ok up_rate_limited
   \<and> statusCode (res (chat_handler nan_coercion cfg_keyed (fetch_answer up_rate_limited) body_hello))
       = 429
   \<and> json_body (res (chat_handler nan_coercion cfg_keyed (fetch_answer up_rate_limited) body_hello))
       = Some (JObj [(''error'', JStr ''Rate limit reached'')])
   \<and> \<not> ok up_bad_gateway
   \<and> statusCode (res (chat_handler nan_coercion cfg_keyed (fetch_answer up_bad_gateway) body_hello))
       = 502
   \<and> json_body (res (chat_handler nan_coercion cfg_keyed (fetch_answer up_bad_gateway) body_hello))
       = Some (JObj [(''error'', JStr ''AI service error'')])
   \<and> \<not> ok up_unavailable
   \<and> statusCode (res (chat_handler nan_coercion cfg_keyed (fetch_answer up_unavailable) body_hello))
       = 500"
proof -
  have k: "validateApiKey cfg_keyed"
    by (simp add: validateApiKey_def cfg_keyed_def)
  have v: "validateChatRequest nan_coercion body_hello = Inr Valid"
    by (simp add: validateChatRequest_def body_hello_def user_msg_def out_of_range_def)
  have c: "dispatched cfg_keyed body_hello
      \<in> set (calls (chat_handler nan_coercion cfg_keyed (fetch_answer up) body_hello))" for up
    by (simp add: calls_chat_handler k v)
  have f: "fetch_answer up (dispatched cfg_keyed body_hello) = FetchResponse up" for up
    by (simp add: fetch_answer_def)
  have n: "\<not> ok up_rate_limited" "\<not> ok up_bad_gateway" "\<not> ok up_unavailable"
    by (simp_all add: ok_def up_rate_limited_def up_bad_gateway_def up_unavailable_def)
  have j1: "up_json up_rate_limited
      = Some (JObj [(''error'', JObj [(''message'', JStr ''Rate limit reached'')])])"
    by (simp add: up_rate_limited_def)
  have j2: "up_json up_bad_gateway = Some (JObj [])"
    by (simp add: up_bad_gateway_def)
  have j3: "up_json up_unavailable = None"
    by (simp add: up_unavailable_def)
  have s: "up_status up_rate_limited = 429" "up_status up_bad_gateway = 502"
    by (simp_all add: up_rate_limited_def up_bad_gateway_def)
  show ?thesis
    using upstream_error_forwarded [OF c f n(1)] upstream_error_forwarded [OF c f n(2)]
      upstream_error_forwarded [OF c f n(3)] c n j1 j2 j3 s
    by simp
qed

text \<open>
  C9 as it is stated fails: a 503 whose body is not JSON makes \<^verbatim>\<open>response.json()\<close> reject,
  and the outer \<^verbatim>\<open>catch\<close> answers 500, so the upstream's status code is not preserved.
\<close>

theorem upstream_error_not_json_counterexample:
  "dispatched cfg_keyed body_hello
      \<in> set (calls (chat_handler nan_coercion cfg_keyed (fetch_answer up_unavailable) body_hello))
   \<and> \<not> ok up_unavailable
   \<and> up_status up_unavailable = 503
   \<and> statusCode (res (chat_handler nan_coercion cfg_keyed (fetch_answer up_unavailable) body_hello))
       = 500
   \<and> json_body (res (chat_handler nan_coercion cfg_keyed (fetch_answer up_unavailable) body_hello))
       = Some (JObj [(''error'', JStr ''An unexpected error occurred. Please try again.'')])"
proof -
  have k: "validateApiKey cfg_keyed"
    by (simp add: validateApiKey_def cfg_keyed_def)
  have v: "validateChatRequest nan_coercion body_hello = Inr Valid"
    by (simp add: validateChatRequest_def body_hello_def user_msg_def out_of_range_def)
  have f: "fetch_answer up_unavailable (dispatched cfg_keyed body_hello) = FetchResponse up_unavailable"
    by (simp add: fetch_answer_def)
  have n: "\<not> ok up_unavailable" and s: "up_status up_unavailable = 503"
    and j: "up_json up_unavailable = None"
    by (simp_all add: ok_def up_unavailable_def)
  show ?thesis
    using n s j
    by (simp add: chat_handler_answered [where fetch = "fetch_answer up_unavailable", OF k v f]
        upstream_error_reply_def unexpected_def error_body_def res_json_def res_status_def
        new_response_def)
qed

section \<open>Properties of the relay\<close>

text \<open>Splitting distributes over a line feed.\<close>

lemma split_nl_not_Nil: "split_nl s \<noteq> []"
  by (induction s) (auto split: list.splits)

lemma split_nl_append_nl: "split_nl (a @ CHR 0x0A # b) = split_nl a @ split_nl b"
proof (induction a)
  case Nil
  then show ?case by simp
next
  case (Cons c a)
  obtain l ls where l: "split_nl a = l # ls"
    using split_nl_not_Nil [of a] by (cases "split_nl a") auto
  show ?case
    using Cons.IH l by simp
qed

lemma split_nl_snoc_nl: "split_nl (a @ [CHR 0x0A]) = split_nl a @ [[]]"
  using split_nl_append_nl [of a "[]"] by simp

lemma not_data_Nil: "\<not> is_data_line []"
  by (simp add: is_data_line_def)

lemma sse_events_Nil: "sse_events [] = []"
  by (simp add: sse_events_def not_data_Nil)

text \<open>After a line-aligned text, the events of what follows are those of the text read on its own.\<close>

lemma sse_events_aligned:
  assumes "line_aligned a"
  shows "sse_events (a @ b) = sse_events a @ sse_events b"
proof (cases "a = []")
  case True
  then show ?thesis by (simp add: sse_events_Nil)
next
  case False
  with assms obtain a' where a: "a = a' @ [CHR 0x0A]"
    unfolding line_aligned_def by (metis append_butlast_last_id)
  have "split_nl (a @ b) = split_nl a' @ split_nl b"
    using split_nl_append_nl [of a' b] a by simp
  moreover have "split_nl a = split_nl a' @ [[]]"
    using split_nl_snoc_nl a by simp
  ultimately show ?thesis
    by (simp add: sse_events_def not_data_Nil)
qed

lemma sse_events_concat:
  "\<forall>chunk \<in> set chunks. line_aligned chunk \<Longrightarrow>
     concat (map sse_events chunks) = sse_events (concat chunks)"
  by (induction chunks) (simp_all add: sse_events_Nil sse_events_aligned)

text \<open>The relay loops in closed form.\<close>

lemma relay_lines_eq:
  "relay_lines ls r =
     r\<lparr> written := written r @ map frame (filter is_data_line ls),
        headersSent := headersSent r \<or> filter is_data_line ls \<noteq> [] \<rparr>"
  by (induction ls arbitrary: r) (auto simp: res_write_def)

lemma relay_chunk_eq:
  "relay_lines (split_nl chunk) r =
     r\<lparr> written := written r @ sse_events chunk,
        headersSent := headersSent r \<or> sse_events chunk \<noteq> [] \<rparr>"
  by (simp add: relay_lines_eq sse_events_def)

lemma relay_loop_eq:
  "relay_loop chunks e r =
     (let r' = r\<lparr> written := written r @ concat (map sse_events chunks),
                    headersSent := headersSent r \<or> concat (map sse_events chunks) \<noteq> [] \<rparr>
      in (case e of Done \<Rightarrow> (res_end (res_write done_frame r'), None)
                  | Dropped \<Rightarrow> (r', Some ReadError)))"
proof (induction chunks arbitrary: r)
  case Nil
  then show ?case by (cases e) simp_all
next
  case (Cons chunk chunks)
  have "relay_loop (chunk # chunks) e r = relay_loop chunks e (relay_lines (split_nl chunk) r)"
    by simp
  also have "\<dots> =
     (let r' = (relay_lines (split_nl chunk) r)
                 \<lparr> written := written (relay_lines (split_nl chunk) r)
                               @ concat (map sse_events chunks),
                   headersSent := headersSent (relay_lines (split_nl chunk) r)
                               \<or> concat (map sse_events chunks) \<noteq> [] \<rparr>
      in (case e of Done \<Rightarrow> (res_end (res_write done_frame r'), None)
                  | Dropped \<Rightarrow> (r', Some ReadError)))"
    by (rule Cons.IH)
  finally show ?case
    by (cases e) (auto simp: relay_chunk_eq Let_def)
qed

text \<open>The streaming branch: what it writes, and how it leaves the response.\<close>

lemma stream_reply_written:
  "written (stream_reply up new_response) =
     concat (map sse_events (up_chunks up)) @ (case up_end up of Done \<Rightarrow> [done_frame] | Dropped \<Rightarrow> [])"
  by (cases "up_end up")
    (simp_all add: stream_reply_def relay_loop_eq Let_def res_setHeader_def new_response_def
      res_write_def res_end_def res_json_def res_status_def)

lemma stream_reply_done:
  "up_end up = Done \<Longrightarrow>
     ended (stream_reply up new_response) \<and> statusCode (stream_reply up new_response) = 200
     \<and> json_body (stream_reply up new_response) = None"
  by (simp add: stream_reply_def relay_loop_eq Let_def res_setHeader_def new_response_def
      res_write_def res_end_def)

text \<open>
  After a drop the \<^verbatim>\<open>catch\<close> block ends the response only when nothing was written yet
  (with a 500); no path of it calls \<^verbatim>\<open>res.end()\<close>, so a stream that drops after a frame
  was written is left open.
\<close>

lemma stream_reply_dropped:
  "up_end up = Dropped \<Longrightarrow>
     ended (stream_reply up new_response) = (concat (map sse_events (up_chunks up)) = [])"
  by (simp add: stream_reply_def relay_loop_eq Let_def res_setHeader_def new_response_def
      res_json_def res_status_def)

lemma stream_dropped_after_frame_stays_open:
  "\<not> ended (stream_reply up_dropped new_response)"
proof -
  have "up_end up_dropped = Dropped"
    by (simp add: up_dropped_def)
  moreover have "concat (map sse_events (up_chunks up_dropped)) \<noteq> []"
    by (simp add: up_dropped_def sse_events_def is_data_line_def)
  ultimately show ?thesis
    by (simp add: stream_reply_dropped)
qed

text \<open>
  What the relay writes for every streaming request that is dispatched and answered with a
  success status: for each chunk it reads, in arrival order, the lines of that chunk that
  begin with the marker, each with its blank line; then the final frame when the stream is
  exhausted, and nothing more when it drops. Only when every chunk ends at a line end are
  these the events of the upstream's text.
\<close>

lemma relay_writes_chunk_events:
  assumes "c \<in> set (calls (chat_handler co cfg fetch body))"
    and "fetch c = FetchResponse up"
    and "ok up"
    and "truthy (opt_chain body ''stream'')"
  shows "outcome (chat_handler co cfg fetch body) = Completed
     \<and> (up_end up = Done \<longrightarrow>
          written (res (chat_handler co cfg fetch body))
            = concat (map sse_events (up_chunks up)) @ [done_frame]
          \<and> ended (res (chat_handler co cfg fetch body))
          \<and> statusCode (res (chat_handler co cfg fetch body)) = 200)
     \<and> (up_end up = Dropped \<longrightarrow>
          written (res (chat_handler co cfg fetch body)) = concat (map sse_events (up_chunks up)))
     \<and> ((\<forall>chunk \<in> set (up_chunks up). line_aligned chunk) \<longrightarrow>
          concat (map sse_events (up_chunks up)) = sse_events (concat (up_chunks up)))"
proof -
  from assms(1) have key: "validateApiKey cfg"
    and valid: "validateChatRequest co body = Inr Valid" and c: "c = dispatched cfg body"
    by (simp_all add: calls_chat_handler split: if_splits)
  have answer: "fetch (dispatched cfg body) = FetchResponse up"
    using assms(2) c by simp
  have h: "chat_handler co cfg fetch body =
      \<lparr> res = stream_reply up new_response, calls = [dispatched cfg body], outcome = Completed \<rparr>"
    using assms(3,4) by (simp add: chat_handler_answered [where fetch = fetch, OF key valid answer])
  show ?thesis
    unfolding h using sse_events_concat [of "up_chunks up"]
    by (auto simp: stream_reply_written stream_reply_done)
qed

text \<open>
  C2, evaluated on the code. The claim has every upstream line that begins with
  \<^verbatim>\<open>data: \<close> forwarded as an event, and the response ended when the upstream drops. The
  relay splits each chunk on its own and keeps no buffer between reads: when the upstream
  line \<^verbatim>\<open>data: abc\<close> arrives as the chunks \<^verbatim>\<open>data: ab\<close> and \<^verbatim>\<open>c\<close> with its line
  ends, the relay writes the truncated event \<^verbatim>\<open>data: ab\<close> with a blank line, then the
  final frame of \<^verbatim>\<open>data: [DONE]\<close> with a blank line, and the rest of the line is lost. When
  the upstream drops after the event \<^verbatim>\<open>data: a\<close> was written, the handler returns with
  the response still open.
\<close>

theorem relay_truncates_split_line:
  "up_chunks up_split_line = [''data: ab'', ''c'' @ [CHR 0x0A, CHR 0x0A]]
   \<and> split_nl (concat (up_chunks up_split_line)) = [''data: abc'', [], []]
   \<and> written (res (chat_handler nan_coercion cfg_keyed (fetch_answer up_split_line) body_stream))
       = [''data: ab'' @ [CHR 0x0A, CHR 0x0A], ''data: [DONE]'' @ [CHR 0x0A, CHR 0x0A]]
   \<and> ended (res (chat_handler nan_coercion cfg_keyed (fetch_answer up_split_line) body_stream))
   \<and> up_chunks up_dropped = [''data: a'' @ [CHR 0x0A, CHR 0x0A]]
   \<and> up_end up_dropped = Dropped
   \<and> written (res (chat_handler nan_coercion cfg_keyed (fetch_answer up_dropped) body_stream))
       = [''data: a'' @ [CHR 0x0A, CHR 0x0A]]
   \<and> \<not> ended (res (chat_handler nan_coercion cfg_keyed (fetch_answer up_dropped) body_stream))
   \<and> outcome (chat_handler nan_coercion cfg_keyed (fetch_answer up_dropped) body_stream) = Completed"
proof -
  have k: "validateApiKey cfg_keyed"
    by (simp add: validateApiKey_def cfg_keyed_def)
  have v: "validateChatRequest nan_coercion body_stream = Inr Valid"
    by (simp add: validateChatRequest_def body_stream_def user_msg_def out_of_range_def)
  have f: "fetch_answer up (dispatched cfg_keyed body_stream) = FetchResponse up" for up
    by (simp add: fetch_answer_def)
  have o: "ok up_split_line" "ok up_dropped"
    by (simp_all add: ok_def up_split_line_def up_dropped_def)
  have e: "up_end up_split_line = Done" "up_end up_dropped = Dropped"
    by (simp_all add: up_split_line_def up_dropped_def)
  have s: "truthy (opt_chain body_stream ''stream'')"
    by (simp add: body_stream_def)
  have w1: "concat (map sse_events (up_chunks up_split_line)) = [''data: ab'' @ [CHR 0x0A, CHR 0x0A]]"
    by (simp add: up_split_line_def sse_events_def is_data_line_def frame_def)
  have w2: "concat (map sse_events (up_chunks up_dropped)) = [''data: a'' @ [CHR 0x0A, CHR 0x0A]]"
    by (simp add: up_dropped_def sse_events_def is_data_line_def frame_def)
  have u: "split_nl (concat (up_chunks up_split_line)) = [''data: abc'', [], []]"
    by (simp add: up_split_line_def)
  have d: "done_frame = ''data: [DONE]'' @ [CHR 0x0A, CHR 0x0A]"
    by (simp add: done_frame_def frame_def)
  have h1: "res (chat_handler nan_coercion cfg_keyed (fetch_answer up_split_line) body_stream)
      = stream_reply up_split_line new_response"
    using o s by (simp add: chat_handler_answered [where fetch = "fetch_answer up_split_line", OF k v f])
  have h2: "res (chat_handler nan_coercion cfg_keyed (fetch_answer up_dropped) body_stream)
      = stream_reply up_dropped new_response"
    "outcome (chat_handler nan_coercion cfg_keyed (fetch_answer up_dropped) body_stream) = Completed"
    using o s by (simp_all add: chat_handler_answered [where fetch = "fetch_answer up_dropped", OF k v f])
  have c1: "up_chunks up_split_line = [''data: ab'', ''c'' @ [CHR 0x0A, CHR 0x0A]]"
    by (simp add: up_split_line_def)
  have c2: "up_chunks up_dropped = [''data: a'' @ [CHR 0x0A, CHR 0x0A]]"
    by (simp add: up_dropped_def)
  have en: "ended (stream_reply up_split_line new_response)"
    using stream_reply_done [OF e(1)] by simp
  have op: "\<not> ended (stream_reply up_dropped new_response)"
    by (rule stream_dropped_after_frame_stays_open)
  show ?thesis
    unfolding h1 h2 stream_reply_written e w1 w2 d u
    using en op e(2) c1 c2 by simp
qed

section \<open>Properties of the client's stream reader\<close>

text \<open>The \<^verbatim>\<open>try\<close> block in terms of the content at the path.\<close>

lemma try_payload_content:
  "try_payload parse data =
     (case parse data of
        None \<Rightarrow> Inl SyntaxError
      | Some parsed \<Rightarrow>
          if nullish parsed \<or> nullish (opt_chain parsed ''choices'') then Inl TypeError
          else Inr (if truthy (delta_content parsed) then Some (delta_content parsed) else None))"
proof (cases "parse data")
  case None
  then show ?thesis by (simp add: try_payload_def)
next
  case (Some parsed)
  show ?thesis
  proof (cases "nullish parsed")
    case True
    then show ?thesis using Some by (cases parsed) (simp_all add: try_payload_def)
  next
    case False
    note p = get_prop_not_nullish [OF False]
    show ?thesis
    proof (cases "nullish (opt_chain parsed ''choices'')")
      case True
      then show ?thesis using Some False
        by (cases "opt_chain parsed ''choices''") (simp_all add: try_payload_def p)
    next
      case nn: False
      then obtain choice where c: "index0 (opt_chain parsed ''choices'') = Inr choice"
        by (cases "opt_chain parsed ''choices''") simp_all
      show ?thesis using Some False nn
        by (simp add: try_payload_def p c delta_content_def js_or_def Let_def)
    qed
  qed
qed

lemma delta_content_nullish:
  "nullish parsed \<or> nullish (opt_chain parsed ''choices'') \<Longrightarrow> delta_content parsed = JUndefined"
  by (cases parsed; cases "opt_chain parsed ''choices''") (auto simp: delta_content_def)

text \<open>
  C3. For every line, the decode step yields a content delta exactly when the line starts
  with the marker \<^verbatim>\<open>data: \<close>, the payload after the marker is not \<^verbatim>\<open>[DONE]\<close>, the payload
  parses as JSON, and the value at \<^verbatim>\<open>choices[0].delta.content\<close> is present and not empty,
  as the truthiness test of the code reads it (for a text: not the empty text); the delta
  is that value. In every other case the step yields nothing: \<open>decode_line\<close> has no
  exception among its results, every exception of the \<^verbatim>\<open>try\<close> block being caught.
\<close>

theorem decode_line_yields:
  "(decode_line parse line = Some delta) =
     (is_data_line line \<and> drop 6 line \<noteq> ''[DONE]''
      \<and> (\<exists>parsed. parse (drop 6 line) = Some parsed \<and> delta_content parsed = delta)
      \<and> truthy delta)"
proof (cases "is_data_line line \<and> drop 6 line \<noteq> ''[DONE]''")
  case False
  then show ?thesis by (auto simp: decode_line_def)
next
  case True
  then have d: "decode_line parse line =
      (case try_payload parse (drop 6 line) of Inl e \<Rightarrow> None | Inr d \<Rightarrow> d)"
    by (simp add: decode_line_def)
  show ?thesis
  proof (cases "parse (drop 6 line)")
    case None
    then show ?thesis by (simp add: d try_payload_content)
  next
    case (Some parsed)
    show ?thesis
    proof (cases "nullish parsed \<or> nullish (opt_chain parsed ''choices'')")
      case n: True
      then have "decode_line parse line = None"
        using Some by (auto simp: d try_payload_content)
      moreover have "\<not> truthy (delta_content parsed)"
        using delta_content_nullish [OF n] by simp
      ultimately show ?thesis using Some True by auto
    next
      case False
      then show ?thesis using Some True by (auto simp: d try_payload_content)
    qed
  qed
qed

text \<open>The theorem at the frame \<^verbatim>\<open>data: {"choices":[{"delta":{"content":"Hi"}}]}\<close>.\<close>

theorem decode_line_yields_witness:
  "is_data_line (''data: '' @ payload_hi)
   \<and> parse_hi payload_hi = Some parsed_hi
   \<and> delta_content parsed_hi = JStr ''Hi''
   \<and> decode_line parse_hi (''data: '' @ payload_hi) = Some (JStr ''Hi'')"
proof -
  have a: "is_data_line (''data: '' @ payload_hi)" by (simp add: is_data_line_def)
  have b: "drop 6 (''data: '' @ payload_hi) = payload_hi" by simp
  have c: "payload_hi \<noteq> ''[DONE]''" by (simp add: payload_hi_def)
  have p: "parse_hi payload_hi = Some parsed_hi" by (simp add: parse_hi_def)
  have e: "delta_content parsed_hi = JStr ''Hi''" by (simp add: delta_content_def parsed_hi_def)
  have "decode_line parse_hi (''data: '' @ payload_hi) = Some (JStr ''Hi'')"
    unfolding decode_line_yields b using a c p e by simp
  then show ?thesis using a p e by simp
qed

text \<open>The reader on the frame in one chunk and in two.\<close>

lemma stream_lines_split:
  "stream_lines [chunk_head, chunk_tail] = [chunk_head, line_tail, [], []]"
  by (simp add: stream_lines_def chunk_head_def chunk_tail_def line_tail_def)

lemma stream_lines_whole:
  "stream_lines [chunk_head @ chunk_tail] = [chunk_head @ line_tail, [], []]"
proof -
  have "split_nl (chunk_head @ chunk_tail) = [chunk_head @ line_tail, [], []]"
    by (simp add: chunk_head_def chunk_tail_def line_tail_def)
  then show ?thesis by (simp add: stream_lines_def)
qed

lemma decode_whole: "decode_line parse_hi (chunk_head @ line_tail) = Some (JStr ''Hi'')"
  by (simp add: decode_line_def is_data_line_def try_payload_def parse_hi_def parsed_hi_def
      js_or_def payload_hi_def chunk_head_def line_tail_def)

lemma decode_head: "decode_line parse_hi chunk_head = None"
  by (simp add: decode_line_def is_data_line_def try_payload_def parse_hi_def chunk_head_def
      payload_hi_def)

lemma decode_tail: "decode_line parse_hi line_tail = None" "decode_line parse_hi [] = None"
  by (simp_all add: decode_line_def is_data_line_def line_tail_def)

text \<open>
  C1, evaluated on the code. The claim has the lines and deltas of a stream independent of
  where the chunk boundaries fall. The reader splits every chunk on its own and keeps no
  buffer between reads: fed the frame
  \<^verbatim>\<open>data: {"choices":[{"delta":{"content":"Hi"}}]}\<close> in one chunk it handles the whole line
  and yields the delta \<^verbatim>\<open>Hi\<close>; fed the same text cut after \<^verbatim>\<open>"delta\<close> it handles the two
  halves as two lines and yields nothing.
\<close>

theorem stream_reader_loses_split_frame:
  "stream_lines [chunk_head, chunk_tail] = [chunk_head, line_tail, [], []]
   \<and> stream_lines [chunk_head @ chunk_tail] = [chunk_head @ line_tail, [], []]
   \<and> streamResponse parse_hi [chunk_head, chunk_tail] = []
   \<and> streamResponse parse_hi [chunk_head @ chunk_tail] = [JStr ''Hi'']"
  by (simp add: streamResponse_def stream_lines_split stream_lines_whole
      decode_whole decode_head decode_tail)

section \<open>Properties of the documented reader\<close>

text \<open>Joining the parts of a split with line feeds gives the text back.\<close>

lemma split_nl_join:
  "concat (map (\<lambda>l. l @ [CHR 0x0A]) (butlast (split_nl s))) @ last (split_nl s) = s"
proof (induction s)
  case Nil
  then show ?case by simp
next
  case (Cons c s)
  obtain l ls where l: "split_nl s = l # ls"
    using split_nl_not_Nil [of s] by (cases "split_nl s") auto
  show ?case
    using Cons.IH l by (cases "ls = []") auto
qed

text \<open>Splitting a text in two pieces: only the last part of the first piece meets the second.\<close>

lemma split_nl_append:
  "split_nl (a @ b) = butlast (split_nl a) @ split_nl (last (split_nl a) @ b)"
proof (induction a)
  case Nil
  then show ?case by simp
next
  case (Cons c a)
  obtain l ls where l: "split_nl a = l # ls"
    using split_nl_not_Nil [of a] by (cases "split_nl a") auto
  show ?case
  proof (cases "c = CHR 0x0A")
    case True
    then show ?thesis using Cons.IH l by simp
  next
    case False
    show ?thesis
    proof (cases "ls = []")
      case True
      then show ?thesis using Cons.IH l False by simp
    next
      case nonempty: False
      then show ?thesis using Cons.IH l False by simp
    qed
  qed
qed

lemma split_nl_last_single: "split_nl (last (split_nl s)) = [last (split_nl s)]"
proof (induction s)
  case Nil
  then show ?case by simp
next
  case (Cons c s)
  obtain l ls where l: "split_nl s = l # ls"
    using split_nl_not_Nil [of s] by (cases "split_nl s") auto
  show ?case
    using Cons.IH l by (cases "ls = []") auto
qed

lemma feed_all_split:
  "split_nl buffer = [buffer] \<Longrightarrow>
     feed_all buffer chunks =
       (butlast (split_nl (buffer @ concat chunks)), last (split_nl (buffer @ concat chunks)))"
proof (induction chunks arbitrary: buffer)
  case Nil
  then show ?case by simp
next
  case (Cons chunk chunks)
  let ?b = "last (split_nl (buffer @ chunk))"
  have ih: "feed_all ?b chunks =
      (butlast (split_nl (?b @ concat chunks)), last (split_nl (?b @ concat chunks)))"
    by (rule Cons.IH) (rule split_nl_last_single)
  have app: "split_nl ((buffer @ chunk) @ concat chunks)
      = butlast (split_nl (buffer @ chunk)) @ split_nl (?b @ concat chunks)"
    by (rule split_nl_append)
  show ?case
    using ih app split_nl_not_Nil [of "?b @ concat chunks"]
    by (simp add: feed_def Let_def butlast_append)
qed

text \<open>
  The property C1 states, for the documented reader: whatever the chunk boundaries, the
  lines handed on, each with its line feed, followed by the residual buffer are the text
  fed, and they are the lines of the text fed in one piece.
\<close>

theorem buffered_reader_reassembles:
  assumes "feed_all [] chunks = (lines, residual)"
  shows "concat (map (\<lambda>l. l @ [CHR 0x0A]) lines) @ residual = concat chunks
     \<and> lines @ [residual] = split_nl (concat chunks)"
proof -
  have "feed_all [] chunks =
      (butlast (split_nl (concat chunks)), last (split_nl (concat chunks)))"
    using feed_all_split [of "[]" chunks] by simp
  with assms have l: "lines = butlast (split_nl (concat chunks))"
    and r: "residual = last (split_nl (concat chunks))"
    by simp_all
  show ?thesis
    unfolding l r using split_nl_join [of "concat chunks"] split_nl_not_Nil [of "concat chunks"]
    by simp
qed

text \<open>The documented reader on the frame cut inside the JSON: the line arrives whole.\<close>

theorem buffered_reader_reassembles_witness:
  "feed_all [] [chunk_head, chunk_tail] = ([chunk_head @ line_tail, []], [])
   \<and> concat (map (\<lambda>l. l @ [CHR 0x0A]) [chunk_head @ line_tail, []]) @ []
       = concat [chunk_head, chunk_tail]"
proof -
  have s: "split_nl (chunk_head @ chunk_tail) = [chunk_head @ line_tail, [], []]"
    by (simp add: chunk_head_def chunk_tail_def line_tail_def)
  have f: "feed_all [] [chunk_head, chunk_tail] = ([chunk_head @ line_tail, []], [])"
    using feed_all_split [of "[]" "[chunk_head, chunk_tail]"] s by simp
  show ?thesis
    using buffered_reader_reassembles [OF f] f by simp
qed

end
